theory Spec2Isabelle
  imports Main "HOL-Library.AList" "HOL-Library.Multiset"
begin


section \<open>Values shared by the components\<close>

text \<open>
  Python's \<open>Any\<close>: the values that preference entries and session preferences hold.
  A \<open>dict\<close> is an association list in insertion order; \<open>AList.update\<close> overwrites a key
  where it stands and appends a new key at the end, as assignment to a Python dict does.
\<close>

datatype pyval =
    PNone
  | PBool bool
  | PInt int
  | PStr string
  | PList "pyval list"
  | PDict "(string \<times> pyval) list"

datatype py_error = ValueError string

text \<open>\<open>d.update(u)\<close>: every item of \<open>u\<close> is assigned into \<open>d\<close>, in the order of \<open>u\<close>.\<close>

definition dict_update :: "('k \<times> 'v) list \<Rightarrow> ('k \<times> 'v) list \<Rightarrow> ('k \<times> 'v) list" where
  "dict_update d u = foldl (\<lambda>acc (k, v). AList.update k v acc) d u"

text \<open>\<open>xs[-n:]\<close> for a positive \<open>n\<close>: the last \<open>n\<close> elements, the whole list when it is shorter.\<close>

definition last_n :: "nat \<Rightarrow> 'a list \<Rightarrow> 'a list" where
  "last_n n xs = drop (length xs - n) xs"

text \<open>\<open>str(n)\<close> for an integer, as the f-strings of the source print it.\<close>

definition digit_char :: "nat \<Rightarrow> char" where
  "digit_char d = char_of (48 + d)"

fun str_nat :: "nat \<Rightarrow> string" where
  "str_nat n = (if n < 10 then [digit_char n] else str_nat (n div 10) @ [digit_char (n mod 10)])"

definition str_int :: "int \<Rightarrow> string" where
  "str_int i = (if i < 0 then CHR ''-'' # str_nat (nat (- i)) else str_nat (nat i))"

subsection \<open>The meal plan (agents/meal\_planner.py)\<close>

text \<open>
  One entry of \<open>meal_plan["meals"]\<close> and the plan dictionary itself. A plan parsed from a
  model response is taken to have this shape too; the components below read no key of a
  plan other than \<open>"meals"\<close> (with default \<open>[]\<close>) and no key of a meal other than
  \<open>"name"\<close> (with default \<open>""\<close>).
\<close>

record meal =
  day :: int
  meal_type :: string
  name :: string
  description :: string

record meal_plan =
  meals :: "meal list"
  summary :: string
  days :: int
  dietary_restrictions :: "string list"
  plan_preferences :: "string list"

section \<open>Session store (memory/session\_service.py)\<close>

text \<open>
  Times are integers (a \<open>datetime\<close> as a count of microseconds, a \<open>timedelta\<close> as their
  difference). Every evaluation of \<open>datetime.now()\<close> in the source is an argument of the
  function that makes it, in the order of the evaluations. The context values of a session
  are a type parameter; the coordinator fixes them.
\<close>

record 'c session =
  session_id :: string
  user_id :: string
  created_at :: int
  last_accessed :: int
  session_context :: "(string \<times> 'c) list"
  session_preferences :: "(string \<times> pyval) list"

record 'c session_service =
  sessions :: "(string \<times> 'c session) list"
  session_timeout :: int

text \<open>\<open>uuid.uuid4()\<close> is the argument \<open>new_id\<close>.\<close>

definition create_session ::
  "'c session_service \<Rightarrow> string \<Rightarrow> int \<Rightarrow> string \<Rightarrow> (string \<times> 'c) list option
    \<Rightarrow> 'c session \<times> 'c session_service" where
  "create_session svc new_id now uid initial_context =
     (let s = \<lparr> session_id = new_id, user_id = uid, created_at = now, last_accessed = now,
                session_context = (case initial_context of None \<Rightarrow> [] | Some [] \<Rightarrow> [] | Some c \<Rightarrow> c),
                session_preferences = [] \<rparr>
      in (s, svc\<lparr> sessions := AList.update new_id s (sessions svc) \<rparr>))"

definition delete_session :: "'c session_service \<Rightarrow> string \<Rightarrow> bool \<times> 'c session_service" where
  "delete_session svc sid =
     (if sid \<in> fst ` set (sessions svc)
      then (True, svc\<lparr> sessions := AList.delete sid (sessions svc) \<rparr>)
      else (False, svc))"

text \<open>
  \<open>get_session\<close> reads the clock once for the expiry test (\<open>now1\<close>) and once more for the
  refresh (\<open>now2\<close>).
\<close>

definition get_session ::
  "'c session_service \<Rightarrow> string \<Rightarrow> int \<Rightarrow> int \<Rightarrow> 'c session option \<times> 'c session_service" where
  "get_session svc sid now1 now2 =
     (case map_of (sessions svc) sid of
        None \<Rightarrow> (None, svc)
      | Some s \<Rightarrow>
          if now1 - last_accessed s > session_timeout svc
          then (None, snd (delete_session svc sid))
          else (let s' = s\<lparr> last_accessed := now2 \<rparr>
                in (Some s', svc\<lparr> sessions := AList.update sid s' (sessions svc) \<rparr>)))"

definition update_session_context ::
  "'c session_service \<Rightarrow> string \<Rightarrow> (string \<times> 'c) list \<Rightarrow> int \<Rightarrow> int \<Rightarrow> int
    \<Rightarrow> bool \<times> 'c session_service" where
  "update_session_context svc sid context_updates now1 now2 now3 =
     (case get_session svc sid now1 now2 of
        (None, svc') \<Rightarrow> (False, svc')
      | (Some s, svc') \<Rightarrow>
          (let s' = s\<lparr> session_context := dict_update (session_context s) context_updates,
                       last_accessed := now3 \<rparr>
           in (True, svc'\<lparr> sessions := AList.update sid s' (sessions svc') \<rparr>)))"

definition update_preferences ::
  "'c session_service \<Rightarrow> string \<Rightarrow> (string \<times> pyval) list \<Rightarrow> int \<Rightarrow> int \<Rightarrow> int
    \<Rightarrow> bool \<times> 'c session_service" where
  "update_preferences svc sid prefs now1 now2 now3 =
     (case get_session svc sid now1 now2 of
        (None, svc') \<Rightarrow> (False, svc')
      | (Some s, svc') \<Rightarrow>
          (let s' = s\<lparr> session_preferences := dict_update (session_preferences s) prefs,
                       last_accessed := now3 \<rparr>
           in (True, svc'\<lparr> sessions := AList.update sid s' (sessions svc') \<rparr>)))"

definition cleanup_expired_sessions :: "'c session_service \<Rightarrow> int \<Rightarrow> nat \<times> 'c session_service" where
  "cleanup_expired_sessions svc now =
     (let expired = map fst (filter (\<lambda>(sid, s). now - last_accessed s > session_timeout svc)
                                    (sessions svc))
      in (length expired,
          svc\<lparr> sessions := foldl (\<lambda>acc sid. AList.delete sid acc) (sessions svc) expired \<rparr>))"

definition get_user_sessions ::
  "'c session_service \<Rightarrow> string \<Rightarrow> 'c session list \<times> 'c session_service" where
  "get_user_sessions svc uid =
     (filter (\<lambda>s. user_id s = uid) (map snd (sessions svc)), svc)"

section \<open>Preference and history store (memory/memory\_bank.py)\<close>

record user_preference =
  pref_user_id :: string
  preference_type :: string
  pref_value :: pyval
  pref_created_at :: int
  last_updated :: int

record meal_history_entry =
  hist_user_id :: string
  meal_plan :: meal_plan
  date :: int
  feedback :: "string option"

text \<open>
  The two dictionaries of the bank, keyed by user id. \<open>save_to_disk\<close> writes a snapshot of
  them and catches every exception of its own, so it leaves the bank in memory as it is.
\<close>

record memory_bank =
  preferences :: "string \<rightharpoonup> user_preference list"
  meal_history :: "string \<rightharpoonup> meal_history_entry list"

definition empty_bank :: memory_bank where
  "empty_bank = \<lparr> preferences = Map.empty, meal_history = Map.empty \<rparr>"

definition prefs_of :: "memory_bank \<Rightarrow> string \<Rightarrow> user_preference list" where
  "prefs_of bank uid = (case preferences bank uid of None \<Rightarrow> [] | Some ps \<Rightarrow> ps)"

definition history_of :: "memory_bank \<Rightarrow> string \<Rightarrow> meal_history_entry list" where
  "history_of bank uid = (case meal_history bank uid of None \<Rightarrow> [] | Some hs \<Rightarrow> hs)"

text \<open>Assignment to the fields of the first object that satisfies \<open>P\<close>, where it stands.\<close>

fun update_first :: "('a \<Rightarrow> bool) \<Rightarrow> ('a \<Rightarrow> 'a) \<Rightarrow> 'a list \<Rightarrow> 'a list" where
  "update_first P f [] = []"
| "update_first P f (x # xs) = (if P x then f x # xs else x # update_first P f xs)"

definition add_preference ::
  "memory_bank \<Rightarrow> string \<Rightarrow> string \<Rightarrow> pyval \<Rightarrow> int \<Rightarrow> memory_bank" where
  "add_preference bank uid ptype v now =
     (let prefs = prefs_of bank uid;
          existing = find (\<lambda>p. preference_type p = ptype) prefs
      in case existing of
           Some _ \<Rightarrow>
             bank\<lparr> preferences := (preferences bank)(uid \<mapsto>
               update_first (\<lambda>p. preference_type p = ptype)
                            (\<lambda>p. p\<lparr> pref_value := v, last_updated := now \<rparr>) prefs) \<rparr>
         | None \<Rightarrow>
             bank\<lparr> preferences := (preferences bank)(uid \<mapsto>
               prefs @ [\<lparr> pref_user_id = uid, preference_type = ptype, pref_value = v,
                          pref_created_at = now, last_updated = now \<rparr>]) \<rparr>)"

text \<open>The dictionary comprehension of \<open>get_preferences\<close>: a later entry overwrites an earlier key.\<close>

definition get_preferences :: "memory_bank \<Rightarrow> string \<Rightarrow> (string \<times> pyval) list" where
  "get_preferences bank uid =
     foldl (\<lambda>d p. AList.update (preference_type p) (pref_value p) d) [] (prefs_of bank uid)"

definition get_preference :: "memory_bank \<Rightarrow> string \<Rightarrow> string \<Rightarrow> pyval" where
  "get_preference bank uid ptype =
     (case find (\<lambda>p. preference_type p = ptype) (prefs_of bank uid) of
        Some p \<Rightarrow> pref_value p
      | None \<Rightarrow> PNone)"

definition add_meal_history ::
  "memory_bank \<Rightarrow> string \<Rightarrow> meal_plan \<Rightarrow> string option \<Rightarrow> int \<Rightarrow> memory_bank" where
  "add_meal_history bank uid plan fb now =
     (let h = history_of bank uid @
                [\<lparr> hist_user_id = uid, meal_plan = plan, date = now, feedback = fb \<rparr>];
          h' = (if length h > 50 then last_n 50 h else h)
      in bank\<lparr> meal_history := (meal_history bank)(uid \<mapsto> h') \<rparr>)"

text \<open>
  \<open>history[-limit:] if limit else history\<close>: a zero limit returns everything, a negative
  limit \<open>-k\<close> drops the first \<open>k\<close> entries.
\<close>

definition get_meal_history :: "memory_bank \<Rightarrow> string \<Rightarrow> int \<Rightarrow> meal_history_entry list" where
  "get_meal_history bank uid limit =
     (let history = history_of bank uid
      in if limit = 0 then history
         else if limit > 0 then last_n (nat limit) history
         else drop (nat (- limit)) history)"

record recent_meal =
  rm_date :: int
  rm_meals :: "meal list"
  rm_feedback :: "string option"

record user_context =
  uc_preferences :: "(string \<times> pyval) list"
  recent_meals :: "recent_meal list"

text \<open>\<open>h.date.isoformat()\<close> prints the date; the model keeps the date itself.\<close>

definition get_user_context :: "memory_bank \<Rightarrow> string \<Rightarrow> user_context" where
  "get_user_context bank uid =
     \<lparr> uc_preferences = get_preferences bank uid,
       recent_meals = map (\<lambda>h. \<lparr> rm_date = date h, rm_meals = meals (meal_plan h),
                                  rm_feedback = feedback h \<rparr>)
                          (get_meal_history bank uid 5) \<rparr>"

section \<open>Planner (agents/meal\_planner.py)\<close>

subsection \<open>String operations of the standard library\<close>

text \<open>\<open>s.lower()\<close>, on the ASCII letters that the meal names are made of.\<close>

definition lower :: "string \<Rightarrow> string" where
  "lower s = map (\<lambda>c. let n = (of_char c :: nat) in
                        if 65 \<le> n \<and> n \<le> 90 then char_of (n + 32) else c) s"

fun starts_with :: "'a list \<Rightarrow> 'a list \<Rightarrow> bool" where
  "starts_with s [] = True"
| "starts_with [] (p # ps) = False"
| "starts_with (c # cs) (p # ps) = (c = p \<and> starts_with cs ps)"

text \<open>
  \<open>find_at s sub i\<close> is the least position of \<open>sub\<close> in \<open>s\<close>, where the head of \<open>s\<close> has
  position \<open>i\<close>; \<open>find_last\<close> is the greatest one.
\<close>

fun find_at :: "string \<Rightarrow> string \<Rightarrow> nat \<Rightarrow> nat option" where
  "find_at [] sub i = (if sub = [] then Some i else None)"
| "find_at (c # cs) sub i =
     (if starts_with (c # cs) sub then Some i else find_at cs sub (Suc i))"

fun find_last :: "string \<Rightarrow> string \<Rightarrow> nat \<Rightarrow> nat option" where
  "find_last [] sub i = (if sub = [] then Some i else None)"
| "find_last (c # cs) sub i =
     (case find_last cs sub (Suc i) of
        Some j \<Rightarrow> Some j
      | None \<Rightarrow> if starts_with (c # cs) sub then Some i else None)"

text \<open>\<open>s.find(sub, start)\<close> for \<open>start \<ge> 0\<close>, \<open>s.rfind(sub)\<close> and \<open>sub in s\<close>; \<open>-1\<close> is "not found".\<close>

definition py_find :: "string \<Rightarrow> string \<Rightarrow> int \<Rightarrow> int" where
  "py_find s sub start =
     (if nat start \<le> length s
      then (case find_at (drop (nat start) s) sub (nat start) of
              None \<Rightarrow> - 1
            | Some j \<Rightarrow> int j)
      else - 1)"

definition py_rfind :: "string \<Rightarrow> string \<Rightarrow> int" where
  "py_rfind s sub = (case find_last s sub 0 of None \<Rightarrow> - 1 | Some j \<Rightarrow> int j)"

definition py_in :: "string \<Rightarrow> string \<Rightarrow> bool" where
  "py_in sub s = (find_at s sub 0 \<noteq> None)"

text \<open>\<open>s[a:b]\<close>: a negative bound counts from the end, and both are clamped to the string.\<close>

definition py_slice :: "string \<Rightarrow> int \<Rightarrow> int \<Rightarrow> string" where
  "py_slice s a b =
     (let n = int (length s);
          lo = (if a < 0 then max 0 (a + n) else min a n);
          hi = (if b < 0 then max 0 (b + n) else min b n)
      in take (nat (hi - lo)) (drop (nat lo) s))"

text \<open>\<open>s.strip()\<close>, on ASCII: the whitespace characters are 9 to 13, 28 to 32.\<close>

definition is_space :: "char \<Rightarrow> bool" where
  "is_space c = (let n = (of_char c :: nat) in (9 \<le> n \<and> n \<le> 13) \<or> (28 \<le> n \<and> n \<le> 32))"

definition py_strip :: "string \<Rightarrow> string" where
  "py_strip s = rev (dropWhile is_space (rev (dropWhile is_space s)))"

subsection \<open>The locally generated plan\<close>

text \<open>
  \<open>random.choice(seq)\<close> returns \<open>seq[i]\<close> for an index \<open>i\<close> below \<open>len(seq)\<close> that the
  generator draws. The draw is the argument \<open>r\<close>, reduced to an index; the sequences
  chosen from below are the non-empty lists of \<open>meal_options\<close>.
\<close>

definition random_choice :: "nat \<Rightarrow> 'a list \<Rightarrow> 'a" where
  "random_choice r seq = seq ! (r mod length seq)"

definition meal_types :: "string list" where
  "meal_types = [''breakfast'', ''lunch'', ''dinner'']"

definition meal_options :: "(string \<times> (string \<times> string list) list) list" where
  "meal_options =
     [(''breakfast'',
        [(''vegetarian'', [''Oatmeal with berries'', ''Scrambled eggs with toast'',
                           ''Greek yogurt parfait'', ''Avocado toast'', ''Pancakes with fruit'']),
         (''vegan'', [''Oatmeal with berries'', ''Avocado toast'', ''Smoothie bowl'',
                      ''Chia pudding'', ''Fruit salad'']),
         (''default'', [''Oatmeal with berries'', ''Scrambled eggs with toast'',
                        ''Greek yogurt parfait'', ''Avocado toast''])]),
      (''lunch'',
        [(''vegetarian'', [''Caesar salad'', ''Vegetable stir-fry'', ''Quinoa bowl'',
                           ''Caprese sandwich'', ''Lentil soup'']),
         (''vegan'', [''Caesar salad (vegan)'', ''Vegetable stir-fry'', ''Quinoa bowl'',
                      ''Hummus wrap'', ''Lentil soup'']),
         (''default'', [''Caesar salad'', ''Chicken wrap'', ''Vegetable stir-fry'',
                        ''Quinoa bowl''])]),
      (''dinner'',
        [(''vegetarian'', [''Pasta with marinara'', ''Tofu curry'', ''Mushroom risotto'',
                           ''Vegetable lasagna'', ''Stuffed peppers'']),
         (''vegan'', [''Pasta with marinara'', ''Tofu curry'', ''Lentil curry'',
                      ''Vegetable stir-fry'', ''Chickpea curry'']),
         (''default'', [''Pasta with marinara'', ''Grilled chicken with vegetables'',
                        ''Tofu curry'', ''Salmon with rice''])])]"

text \<open>
  \<open>meal_options[meal_type][key]\<close> and \<open>meal_options[meal_type].get(key, default)\<close>. The
  keys used are the literals of the table, so the lookups of the source never fail; an
  absent key reads as the empty list here.
\<close>

definition options_at :: "string \<Rightarrow> string \<Rightarrow> string list" where
  "options_at mt key =
     (case map_of meal_options mt of
        None \<Rightarrow> []
      | Some tbl \<Rightarrow> (case map_of tbl key of None \<Rightarrow> [] | Some xs \<Rightarrow> xs))"

definition options_get :: "string \<Rightarrow> string \<Rightarrow> string list \<Rightarrow> string list" where
  "options_get mt key dflt =
     (case map_of meal_options mt of
        None \<Rightarrow> dflt
      | Some tbl \<Rightarrow> (case map_of tbl key of None \<Rightarrow> dflt | Some xs \<Rightarrow> xs))"

text \<open>An optional list is true in a condition when it is there and not empty.\<close>

definition truthy :: "'a list option \<Rightarrow> bool" where
  "truthy xs = (case xs of None \<Rightarrow> False | Some l \<Rightarrow> l \<noteq> [])"

definition or_empty :: "'a list option \<Rightarrow> 'a list" where
  "or_empty xs = (case xs of None \<Rightarrow> [] | Some l \<Rightarrow> l)"

definition selected_meals :: "string list option \<Rightarrow> string \<Rightarrow> string list" where
  "selected_meals restrictions mt =
     (if truthy restrictions then
        if ''vegan'' \<in> set (or_empty restrictions)
        then options_get mt ''vegan'' (options_at mt ''default'')
        else if ''vegetarian'' \<in> set (or_empty restrictions)
        then options_get mt ''vegetarian'' (options_at mt ''default'')
        else options_at mt ''default''
      else options_at mt ''default'')"

text \<open>
  The two loops of the generator. \<open>rnd k\<close> is the draw of the \<open>k\<close>-th call of
  \<open>random.choice\<close> in this invocation.
\<close>

fun day_meals ::
  "(nat \<Rightarrow> nat) \<Rightarrow> nat \<Rightarrow> (string \<Rightarrow> string list) \<Rightarrow> int \<Rightarrow> string list \<Rightarrow> meal list" where
  "day_meals rnd k sel d [] = []"
| "day_meals rnd k sel d (mt # mts) =
     (let meal_name = random_choice (rnd k) (sel mt)
      in \<lparr> day = d, meal_type = mt, name = meal_name,
           description = ''A delicious '' @ lower meal_name @ '' for '' @ mt \<rparr>
         # day_meals rnd (Suc k) sel d mts)"

fun plan_days ::
  "(nat \<Rightarrow> nat) \<Rightarrow> nat \<Rightarrow> (string \<Rightarrow> string list) \<Rightarrow> int list \<Rightarrow> meal list" where
  "plan_days rnd k sel [] = []"
| "plan_days rnd k sel (d # ds) =
     day_meals rnd k sel d meal_types @ plan_days rnd (k + length meal_types) sel ds"

definition generate_mock_meal_plan ::
  "(nat \<Rightarrow> nat) \<Rightarrow> int \<Rightarrow> string list option \<Rightarrow> string list option \<Rightarrow> meal_plan" where
  "generate_mock_meal_plan rnd n restrictions prefs =
     (let ms = plan_days rnd 0 (selected_meals restrictions) [1..n]
      in \<lparr> meals = ms,
           summary = ''Generated '' @ str_int n @ ''-day meal plan with ''
                       @ str_nat (length ms) @ '' meals'',
           days = n,
           dietary_restrictions = or_empty restrictions,
           plan_preferences = or_empty prefs \<rparr>)"

subsection \<open>The planner's call of the language model\<close>

text \<open>
  What the call of the model gives within the five seconds the planner waits: nothing
  (\<open>Timeout\<close>), an exception (\<open>CallFailed\<close>; every other exception in the body of
  \<open>plan_meals\<close> ends in the same call of the local generator), or the text of a response.
  The prompt is read by the model only. \<open>json.loads\<close> is the argument \<open>json_loads\<close>: it
  gives the plan that the text denotes, and \<open>None\<close> where it raises. A text that denotes
  a JSON value which is not a plan of the shape above is outside this model.
\<close>

datatype llm_reply = Timeout | CallFailed | Response string

text \<open>The \<open>try\<close> block of \<open>_parse_llm_response\<close>: \<open>None\<close> when it returns nothing or raises.\<close>

definition parsed_response :: "(string \<Rightarrow> meal_plan option) \<Rightarrow> string \<Rightarrow> meal_plan option" where
  "parsed_response json_loads response_text =
     (if py_in ''```json'' response_text then
        (let json_start = py_find response_text ''```json'' 0 + 7;
             json_end = py_find response_text ''```'' json_start;
             json_str = py_strip (py_slice response_text json_start json_end)
         in json_loads json_str)
      else if py_in ''{'' response_text then
        (let json_start = py_find response_text ''{'' 0;
             json_end = py_rfind response_text ''}'' + 1;
             json_str = py_slice response_text json_start json_end
         in json_loads json_str)
      else None)"

definition parse_llm_response ::
  "(string \<Rightarrow> meal_plan option) \<Rightarrow> (nat \<Rightarrow> nat) \<Rightarrow> string \<Rightarrow> int \<Rightarrow> meal_plan" where
  "parse_llm_response json_loads rnd response_text n =
     (case parsed_response json_loads response_text of
        Some plan \<Rightarrow> plan
      | None \<Rightarrow> generate_mock_meal_plan rnd n None None)"

text \<open>\<open>MealPlannerAgent.plan_meals\<close>; \<open>llm = None\<close> when no model is configured.\<close>

definition meal_planner_plan_meals ::
  "llm_reply option \<Rightarrow> (string \<Rightarrow> meal_plan option) \<Rightarrow> (nat \<Rightarrow> nat)
    \<Rightarrow> int \<Rightarrow> string list option \<Rightarrow> string list option \<Rightarrow> meal_plan" where
  "meal_planner_plan_meals llm json_loads rnd n restrictions prefs =
     (case llm of
        None \<Rightarrow> generate_mock_meal_plan rnd n restrictions prefs
      | Some Timeout \<Rightarrow> generate_mock_meal_plan rnd n restrictions prefs
      | Some CallFailed \<Rightarrow> generate_mock_meal_plan rnd n restrictions prefs
      | Some (Response response_text) \<Rightarrow>
          if response_text \<noteq> []
          then parse_llm_response json_loads rnd response_text n
          else generate_mock_meal_plan rnd n restrictions prefs)"

section \<open>Recipe finder (agents/recipe\_finder.py)\<close>

text \<open>
  The search tool is an argument: it returns a list of recipes or raises. \<open>process_meal\<close>
  takes the first recipe, and gives \<open>None\<close> for an empty list and for an exception.
\<close>

datatype 'r search_result = Recipes "'r list" | SearchRaised

definition process_meal ::
  "(string \<Rightarrow> string list option \<Rightarrow> nat \<Rightarrow> 'r search_result) \<Rightarrow> string list option \<Rightarrow> meal
    \<Rightarrow> string \<times> 'r option" where
  "process_meal search restrictions m =
     (let meal_name = name m
      in case search meal_name restrictions 3 of
           Recipes (best_recipe # _) \<Rightarrow> (meal_name, Some best_recipe)
         | Recipes [] \<Rightarrow> (meal_name, None)
         | SearchRaised \<Rightarrow> (meal_name, None))"

record 'r recipe_results =
  meal_recipes :: "(string \<times> 'r option) list"
  total_meals :: nat
  recipes_found :: nat

text \<open>
  One future per meal, numbered in the order of submission. \<open>as_completed\<close> hands them
  back in the order in which they complete, and \<open>result_raises i\<close> tells whether
  \<open>future.result(timeout=5)\<close> raises for future \<open>i\<close> (a timeout or an exception of the
  task), in which case the meal's name is stored with \<open>None\<close>. With meals of the shape
  above nothing else in the body raises, so the outer \<open>except\<close> clause is not reached.
\<close>

definition collect_result ::
  "(string \<Rightarrow> string list option \<Rightarrow> nat \<Rightarrow> 'r search_result) \<Rightarrow> (nat \<Rightarrow> bool)
    \<Rightarrow> string list option \<Rightarrow> (string \<times> 'r option) list \<Rightarrow> nat \<times> meal
    \<Rightarrow> (string \<times> 'r option) list" where
  "collect_result search result_raises restrictions acc fut =
     (case fut of (i, m) \<Rightarrow>
        if result_raises i then AList.update (name m) None acc
        else (case process_meal search restrictions m of
                (meal_name, recipe) \<Rightarrow> AList.update meal_name recipe acc))"

definition find_recipes_for_meals ::
  "(string \<Rightarrow> string list option \<Rightarrow> nat \<Rightarrow> 'r search_result) \<Rightarrow> (nat \<Rightarrow> bool)
    \<Rightarrow> ((nat \<times> meal) list \<Rightarrow> (nat \<times> meal) list)
    \<Rightarrow> meal list \<Rightarrow> string list option \<Rightarrow> 'r recipe_results" where
  "find_recipes_for_meals search result_raises as_completed ms restrictions =
     (let future_to_meal = zip [0..<length ms] ms;
          found = foldl (collect_result search result_raises restrictions) []
                        (as_completed future_to_meal)
      in \<lparr> meal_recipes = found,
           total_meals = length ms,
           recipes_found = length (filter (\<lambda>r. r \<noteq> None) (map snd found)) \<rparr>)"

section \<open>Coordinator (agents/orchestrator.py)\<close>

text \<open>The values that the coordinator stores in a session's context.\<close>

datatype ('r, 'sl) context_value =
    UserContextValue user_context
  | PreferencesValue "(string \<times> pyval) list"
  | MealPlanValue meal_plan
  | RecipesValue "'r recipe_results"
  | ShoppingListValue "'sl option"

text \<open>
  The coordinator owns the two stores; \<open>log\<close> holds the messages its logger has emitted.
\<close>

record ('r, 'sl) orchestrator =
  session_service :: "('r, 'sl) context_value session_service"
  memory_bank :: memory_bank
  log :: "string list"

text \<open>
  What lies outside the process during one call of the workflow: the model's reply, the
  random draws, the search tool, the scheduling of the futures, the list builder (its
  \<open>"shopping_list"\<close> entry), the nutrition estimator (both catch every exception of
  their own), and the clock: \<open>clock k\<close> is the reading of the \<open>k\<close>-th place of the
  workflow that evaluates \<open>datetime.now()\<close>.
\<close>

record ('r, 'sl, 'nu) env =
  env_llm :: "llm_reply option"
  env_json_loads :: "string \<Rightarrow> meal_plan option"
  env_rnd :: "nat \<Rightarrow> nat"
  env_search_recipes :: "string \<Rightarrow> string list option \<Rightarrow> nat \<Rightarrow> 'r search_result"
  env_result_raises :: "nat \<Rightarrow> bool"
  env_as_completed :: "(nat \<times> meal) list \<Rightarrow> (nat \<times> meal) list"
  env_generate_shopping_list :: "(string \<times> 'r option) list \<Rightarrow> bool \<Rightarrow> 'sl option"
  env_analyze_meal_nutrition :: "(string \<times> 'r) list \<Rightarrow> 'nu"
  env_clock :: "nat \<Rightarrow> int"

record ('r, 'sl, 'nu) workflow_result =
  res_meal_plan :: meal_plan
  res_recipes :: "'r recipe_results"
  res_shopping_list :: "'sl option"
  res_nutrition :: "'nu option"
  res_session_id :: string

definition orchestrator_create_session ::
  "('r, 'sl) orchestrator \<Rightarrow> string \<Rightarrow> int \<Rightarrow> string \<Rightarrow> (string \<times> pyval) list option
    \<Rightarrow> string \<times> ('r, 'sl) orchestrator" where
  "orchestrator_create_session orch new_id now uid initial_preferences =
     (let uc = get_user_context (memory_bank orch) uid;
          uc' = (if truthy initial_preferences
                 then uc\<lparr> uc_preferences :=
                            dict_update (uc_preferences uc) (or_empty initial_preferences) \<rparr>
                 else uc);
          (s, svc') = create_session (session_service orch) new_id now uid
                        (Some [(''user_context'', UserContextValue uc'),
                               (''preferences'', PreferencesValue (uc_preferences uc'))])
      in (session_id s,
          orch\<lparr> session_service := svc',
                log := log orch @ [''Created session '' @ session_id s @ '' for user '' @ uid] \<rparr>))"

text \<open>
  The loop that saves the dietary restrictions: one \<open>add_preference\<close> per restriction,
  each under the type \<open>"dietary_restriction"\<close>, each with its own clock reading.
\<close>

fun save_restrictions ::
  "memory_bank \<Rightarrow> string \<Rightarrow> string list \<Rightarrow> (nat \<Rightarrow> int) \<Rightarrow> nat \<Rightarrow> memory_bank" where
  "save_restrictions bank uid [] clk k = bank"
| "save_restrictions bank uid (restriction # rest) clk k =
     save_restrictions
       (add_preference bank uid ''dietary_restriction'' (PStr restriction) (clk k))
       uid rest clk (Suc k)"

text \<open>
  The meals that have a recipe, as the nutrition step collects them. A recipe is a
  dictionary with keys, so it is true in the condition of the comprehension.
\<close>

definition meals_with_recipes :: "meal list \<Rightarrow> (string \<times> 'r option) list \<Rightarrow> (string \<times> 'r) list" where
  "meals_with_recipes ms found =
     List.map_filter
       (\<lambda>m. case map_of found (name m) of
               Some (Some recipe) \<Rightarrow> Some (name m, recipe)
             | _ \<Rightarrow> None) ms"

text \<open>
  \<open>OrchestratorAgent.plan_meals\<close>. The budget goes into the planner's prompt only and is
  left out. An exception leaves through the \<open>except\<close> clause, which logs it and raises it
  again: the result is \<open>Inl\<close> of it.
\<close>

definition orchestrator_plan_meals ::
  "('r, 'sl, 'nu) env \<Rightarrow> ('r, 'sl) orchestrator \<Rightarrow> string \<Rightarrow> int
    \<Rightarrow> string list option \<Rightarrow> string list option \<Rightarrow> bool \<Rightarrow> bool
    \<Rightarrow> (py_error + ('r, 'sl, 'nu) workflow_result) \<times> ('r, 'sl) orchestrator" where
  "orchestrator_plan_meals e orch sid n restrictions prefs include_nutrition include_shopping_list =
     (case get_session (session_service orch) sid (env_clock e 0) (env_clock e 1) of
        (None, svc1) \<Rightarrow>
          (Inl (ValueError (''Session '' @ sid @ '' not found'')),
           orch\<lparr> session_service := svc1,
                 log := log orch @
                   [''Error in meal planning workflow: Session '' @ sid @ '' not found''] \<rparr>)
      | (Some sess, svc1) \<Rightarrow>
          (let log1 = log orch @ [''Step 1: Planning meals for '' @ str_int n @ '' days''];
               plan = meal_planner_plan_meals (env_llm e) (env_json_loads e) (env_rnd e) n restrictions prefs;
               log2 = log1 @ [''Step 2: Finding recipes for meals''];
               recipe_results = find_recipes_for_meals (env_search_recipes e) (env_result_raises e)
                                  (env_as_completed e) (meals plan) restrictions;
               log3 = (if include_shopping_list
                       then log2 @ [''Step 3: Generating shopping list''] else log2);
               shopping_list = (if include_shopping_list
                                then env_generate_shopping_list e (meal_recipes recipe_results) True
                                else None);
               log4 = (if include_nutrition
                       then log3 @ [''Step 4: Analyzing nutrition''] else log3);
               nutrition_analysis =
                 (if include_nutrition
                  then Some (env_analyze_meal_nutrition e
                               (meals_with_recipes (meals plan) (meal_recipes recipe_results)))
                  else None);
               svc2 = snd (update_session_context svc1 sid
                             [(''last_meal_plan'', MealPlanValue plan),
                              (''last_recipes'', RecipesValue recipe_results),
                              (''last_shopping_list'', ShoppingListValue shopping_list)]
                             (env_clock e 2) (env_clock e 3) (env_clock e 4));
               bank1 = add_meal_history (memory_bank orch) (user_id sess) plan None (env_clock e 5);
               bank2 = (if truthy restrictions
                        then save_restrictions bank1 (user_id sess) (or_empty restrictions)
                               (env_clock e) 6
                        else bank1);
               bank3 = (if truthy prefs
                        then add_preference bank2 (user_id sess) ''cuisine_preferences''
                               (PList (map PStr (or_empty prefs)))
                               (env_clock e (6 + length (or_empty restrictions)))
                        else bank2)
           in (Inr \<lparr> res_meal_plan = plan, res_recipes = recipe_results,
                      res_shopping_list = shopping_list, res_nutrition = nutrition_analysis,
                      res_session_id = sid \<rparr>,
               orch\<lparr> session_service := svc2, memory_bank := bank3,
                     log := log4 @ [''Meal planning complete for session '' @ sid] \<rparr>)))"


section \<open>Notions and concrete inputs used to state the properties of the stores\<close>

text \<open>The number of entries that the bank holds for a user and a preference type.\<close>

definition count_entries :: "memory_bank \<Rightarrow> string \<Rightarrow> string \<Rightarrow> nat" where
  "count_entries bank uid ptype =
     length (filter (\<lambda>p. preference_type p = ptype) (prefs_of bank uid))"

text \<open>
  A sequence of \<open>add_preference\<close> calls, each with its user, type, value and clock
  reading, and the effect of running it.
\<close>

type_synonym pref_write = "string \<times> string \<times> pyval \<times> int"

definition run_writes :: "memory_bank \<Rightarrow> pref_write list \<Rightarrow> memory_bank" where
  "run_writes bank ws = foldl (\<lambda>b (uid, ptype, v, now). add_preference b uid ptype v now) bank ws"

text \<open>
  From the words of the specification: the last value written for a user and type in a
  sequence of writes, if there is one.
\<close>

fun last_written :: "string \<Rightarrow> string \<Rightarrow> pref_write list \<Rightarrow> pyval option" where
  "last_written uid ptype [] = None"
| "last_written uid ptype ((u, t, v, now) # ws) =
     (case last_written uid ptype ws of
        Some v' \<Rightarrow> Some v'
      | None \<Rightarrow> if u = uid \<and> t = ptype then Some v else None)"

text \<open>A history of exactly 50 entries, with the dates 0 to 49, and stores with one and two sessions.\<close>

definition demo_plan :: "int \<Rightarrow> meal_plan" where
  "demo_plan n = \<lparr> meals = [], summary = [], days = n, dietary_restrictions = [],
                   plan_preferences = [] \<rparr>"

definition full_history :: "meal_history_entry list" where
  "full_history = map (\<lambda>i. \<lparr> hist_user_id = ''u1'', meal_plan = demo_plan (int i),
                              date = int i, feedback = None \<rparr>) [0..<50]"

definition full_bank :: memory_bank where
  "full_bank = \<lparr> preferences = Map.empty, meal_history = [''u1'' \<mapsto> full_history] \<rparr>"

definition demo_session :: "unit session" where
  "demo_session = \<lparr> session_id = ''s1'', user_id = ''u1'', created_at = 0, last_accessed = 0,
                    session_context = [], session_preferences = [] \<rparr>"

definition old_session :: "unit session" where
  "old_session = \<lparr> session_id = ''s0'', user_id = ''u1'', created_at = 0, last_accessed = 0,
                   session_context = [], session_preferences = [] \<rparr>"

definition demo_service :: "unit session_service" where
  "demo_service = \<lparr> sessions = [(''s1'', demo_session)], session_timeout = 3600 \<rparr>"

definition two_sessions :: "unit session_service" where
  "two_sessions = \<lparr> sessions = [(''s0'', old_session),
                                 (''s1'', demo_session\<lparr> last_accessed := 9000 \<rparr>)],
                    session_timeout = 3600 \<rparr>"


section \<open>Notions and concrete inputs used to state the properties of the agents\<close>

text \<open>Three sequences of random draws.\<close>

definition draws_zero :: "nat \<Rightarrow> nat" where "draws_zero k = 0"

definition draws_one :: "nat \<Rightarrow> nat" where "draws_one k = 1"

definition draws_zero_then_one :: "nat \<Rightarrow> nat" where
  "draws_zero_then_one k = (if k < 3 then 0 else 1)"

text \<open>
  The cases in which \<open>MealPlannerAgent.plan_meals\<close> calls the local generator: no model,
  a timeout, a failed call, an empty response, a response from which no plan parses.
\<close>

definition planner_falls_back :: "llm_reply option \<Rightarrow> (string \<Rightarrow> meal_plan option) \<Rightarrow> bool" where
  "planner_falls_back reply loads =
     (case reply of
        None \<Rightarrow> True
      | Some Timeout \<Rightarrow> True
      | Some CallFailed \<Rightarrow> True
      | Some (Response response_text) \<Rightarrow>
          response_text = [] \<or> parsed_response loads response_text = None)"

text \<open>The meals of the plan that the workflow returns, when it returns one.\<close>

definition result_meals :: "(py_error + ('r, 'sl, 'nu) workflow_result) \<Rightarrow> meal list option" where
  "result_meals r = (case r of Inl _ \<Rightarrow> None | Inr res \<Rightarrow> Some (meals (res_meal_plan res)))"

text \<open>
  A concrete environment: no model, the draws 0, a search tool that finds three recipes
  (their titles) for every query, futures that never raise and complete in the order of
  submission, a list builder and an estimator that count their inputs, and a clock that
  stands at 0. \<open>reply_env\<close> is the same with a model that answers \<open>{"meals": []}\<close>.
\<close>

definition empty_plan :: meal_plan where
  "empty_plan = \<lparr> meals = [], summary = [], days = 0, dietary_restrictions = [],
                  plan_preferences = [] \<rparr>"

definition loads_none :: "string \<Rightarrow> meal_plan option" where
  "loads_none s = None"

definition loads_empty_plan :: "string \<Rightarrow> meal_plan option" where
  \<open>loads_empty_plan s = (if s = ''{"meals": []}'' then Some empty_plan else None)\<close>

definition search_titles :: "string \<Rightarrow> string list option \<Rightarrow> nat \<Rightarrow> string search_result" where
  "search_titles query restrictions max_results =
     Recipes (take max_results [''Delicious '' @ query, ''Healthy '' @ query @ '' Bowl'',
                                ''Classic '' @ query])"

definition never_raises :: "nat \<Rightarrow> bool" where
  "never_raises i = False"

definition submission_order :: "(nat \<times> meal) list \<Rightarrow> (nat \<times> meal) list" where
  "submission_order futures = futures"

definition count_items :: "(string \<times> string option) list \<Rightarrow> bool \<Rightarrow> nat option" where
  "count_items found optimize = Some (length (filter (\<lambda>r. r \<noteq> None) (map snd found)))"

definition count_analysed :: "(string \<times> string) list \<Rightarrow> nat" where
  "count_analysed ms = length ms"

definition clock_zero :: "nat \<Rightarrow> int" where
  "clock_zero k = 0"

definition demo_env :: "(string, nat, nat) env" where
  "demo_env = \<lparr> env_llm = None, env_json_loads = loads_none, env_rnd = draws_zero,
                env_search_recipes = search_titles, env_result_raises = never_raises,
                env_as_completed = submission_order,
                env_generate_shopping_list = count_items,
                env_analyze_meal_nutrition = count_analysed, env_clock = clock_zero \<rparr>"

definition reply_env :: "(string, nat, nat) env" where
  \<open>reply_env = demo_env\<lparr> env_llm := Some (Response ''{"meals": []}''),
                          env_json_loads := loads_empty_plan \<rparr>\<close>

text \<open>A coordinator with one session of user \<open>u1\<close>, last accessed at 0, and a timeout of 3600.\<close>

definition demo_orchestrator :: "(string, nat) orchestrator" where
  "demo_orchestrator =
     \<lparr> session_service =
         \<lparr> sessions = [(''s1'', \<lparr> session_id = ''s1'', user_id = ''u1'', created_at = 0,
                                  last_accessed = 0, session_context = [],
                                  session_preferences = [] \<rparr>)],
           session_timeout = 3600 \<rparr>,
       memory_bank = empty_bank, log = [] \<rparr>"

text \<open>
  What one future contributes to \<open>meal_recipes\<close>: the name of its meal, with \<open>None\<close>
  when \<open>future.result\<close> raises and with the result of \<open>process_meal\<close> otherwise. The
  lookup of a meal succeeded when that is a recipe.
\<close>

definition future_entry ::
  "(string \<Rightarrow> string list option \<Rightarrow> nat \<Rightarrow> 'r search_result) \<Rightarrow> (nat \<Rightarrow> bool)
    \<Rightarrow> string list option \<Rightarrow> nat \<times> meal \<Rightarrow> string \<times> 'r option" where
  "future_entry search raises restrictions fut =
     (case fut of (i, m) \<Rightarrow>
        (name m, if raises i then None else snd (process_meal search restrictions m)))"

definition lookup_succeeded ::
  "(string \<Rightarrow> string list option \<Rightarrow> nat \<Rightarrow> 'r search_result) \<Rightarrow> (nat \<Rightarrow> bool)
    \<Rightarrow> string list option \<Rightarrow> nat \<times> meal \<Rightarrow> bool" where
  "lookup_succeeded search raises restrictions fut =
     (snd (future_entry search raises restrictions fut) \<noteq> None)"

text \<open>Concrete meals, a search tool that raises for one of them, and a completion order.\<close>

definition mk_meal :: "int \<Rightarrow> string \<Rightarrow> string \<Rightarrow> meal" where
  "mk_meal d mt nm = \<lparr> day = d, meal_type = mt, name = nm, description = [] \<rparr>"

definition search_fails_for_quinoa ::
  "string \<Rightarrow> string list option \<Rightarrow> nat \<Rightarrow> string search_result" where
  "search_fails_for_quinoa query restrictions max_results =
     (if query = ''Quinoa bowl'' then SearchRaised
      else search_titles query restrictions max_results)"

definition reverse_order :: "(nat \<times> meal) list \<Rightarrow> (nat \<times> meal) list" where
  "reverse_order futures = rev futures"

definition three_meals :: "meal list" where
  "three_meals = [mk_meal 1 ''breakfast'' ''Avocado toast'', mk_meal 1 ''lunch'' ''Quinoa bowl'',
                  mk_meal 1 ''dinner'' ''Tofu curry'']"

definition same_breakfast_twice :: "meal list" where
  "same_breakfast_twice = [mk_meal 1 ''breakfast'' ''Avocado toast'',
                           mk_meal 2 ''breakfast'' ''Avocado toast'']"

text \<open>A clock that stands at 9000, and a coordinator with no session and an empty bank.\<close>

definition clock_late :: "nat \<Rightarrow> int" where
  "clock_late k = 9000"

definition late_env :: "(string, nat, nat) env" where
  "late_env = demo_env\<lparr> env_clock := clock_late \<rparr>"

definition fresh_orchestrator :: "(string, nat) orchestrator" where
  "fresh_orchestrator =
     \<lparr> session_service = \<lparr> sessions = [], session_timeout = 3600 \<rparr>,
       memory_bank = empty_bank, log = [] \<rparr>"


section \<open>Properties of the preference and history store\<close>

lemma prefs_of_add_preference:
  "prefs_of (add_preference bank uid ptype v now) u =
     (if u = uid
      then (case find (\<lambda>p. preference_type p = ptype) (prefs_of bank uid) of
              Some _ \<Rightarrow> update_first (\<lambda>p. preference_type p = ptype)
                          (\<lambda>p. p\<lparr> pref_value := v, last_updated := now \<rparr>) (prefs_of bank uid)
            | None \<Rightarrow> prefs_of bank uid @
                [\<lparr> pref_user_id = uid, preference_type = ptype, pref_value = v,
                   pref_created_at = now, last_updated = now \<rparr>])
      else prefs_of bank u)"
  by (simp add: add_preference_def prefs_of_def Let_def split: option.splits)

lemma types_update_first:
  "map preference_type (update_first (\<lambda>p. preference_type p = t) (\<lambda>p. p\<lparr> pref_value := v, last_updated := n \<rparr>) ps)
     = map preference_type ps"
  by (induction ps) auto

lemma types_add_preference:
  "map preference_type (prefs_of (add_preference bank uid ptype v now) u) =
     (if u = uid \<and> ptype \<notin> set (map preference_type (prefs_of bank uid))
      then map preference_type (prefs_of bank uid) @ [ptype]
      else map preference_type (prefs_of bank u))"
  by (auto simp: prefs_of_add_preference types_update_first find_None_iff find_Some_iff split: option.splits)

lemma count_entries_types:
  "count_entries bank u t = count_list (map preference_type (prefs_of bank u)) t"
proof -
  have "length (filter (\<lambda>p. preference_type p = t) ps) = count_list (map preference_type ps) t" for ps
    by (induction ps) auto
  then show ?thesis by (simp add: count_entries_def)
qed


lemma count_le_one_distinct:
  "(\<forall>t. count_entries bank u t \<le> 1) \<longleftrightarrow> distinct (map preference_type (prefs_of bank u))"
proof -
  have "(\<forall>t. count_list xs t \<le> 1) \<longleftrightarrow> distinct xs" for xs :: "string list"
  proof (induction xs)
    case Nil
    show ?case by simp
  next
    case (Cons x xs)
    show ?case
    proof
      assume h: "\<forall>t. count_list (x # xs) t \<le> 1"
      then have "count_list (x # xs) x \<le> 1" by blast
      then have "count_list xs x = 0" by simp
      then have nx: "x \<notin> set xs" by (simp add: count_list_0_iff)
      have "\<forall>t. count_list xs t \<le> 1"
      proof
        fix t
        from h have "count_list (x # xs) t \<le> 1" by blast
        then show "count_list xs t \<le> 1" by (simp split: if_splits)
      qed
      with Cons nx show "distinct (x # xs)" by simp
    next
      assume d: "distinct (x # xs)"
      then have "\<forall>t. count_list xs t \<le> 1" using Cons by simp
      moreover from d have "count_list xs x = 0" by (simp add: count_list_0_iff)
      ultimately show "\<forall>t. count_list (x # xs) t \<le> 1" by simp
    qed
  qed
  then show ?thesis by (simp add: count_entries_types)
qed

lemma distinct_add_preference:
  assumes "distinct (map preference_type (prefs_of bank u))"
  shows "distinct (map preference_type (prefs_of (add_preference bank uid ptype v now) u))"
  using assms by (auto simp: types_add_preference)

lemma run_writes_Cons:
  "run_writes bank ((uid, ptype, v, now) # ws) = run_writes (add_preference bank uid ptype v now) ws"
  by (simp add: run_writes_def)

lemma run_writes_Nil: "run_writes bank [] = bank"
  by (simp add: run_writes_def)

lemma distinct_run_writes:
  "distinct (map preference_type (prefs_of bank u)) \<Longrightarrow>
   distinct (map preference_type (prefs_of (run_writes bank ws) u))"
proof (induction ws arbitrary: bank)
  case Nil
  then show ?case by (simp add: run_writes_Nil)
next
  case (Cons w ws)
  obtain uid ptype v now where w: "w = (uid, ptype, v, now)" by (cases w) auto
  show ?case unfolding w run_writes_Cons
    by (rule Cons.IH) (rule distinct_add_preference [OF Cons.prems])
qed

lemma find_update_first:
  assumes "\<And>p. preference_type (f p) = preference_type p"
  shows "find (\<lambda>p. preference_type p = t) (update_first (\<lambda>p. preference_type p = t') f ps) =
           (if t = t' then map_option f (find (\<lambda>p. preference_type p = t') ps)
            else find (\<lambda>p. preference_type p = t) ps)"
  using assms by (induction ps) auto

lemma find_append:
  "find P (xs @ ys) = (case find P xs of Some x \<Rightarrow> Some x | None \<Rightarrow> find P ys)"
  by (induction xs) auto

lemma find_add_preference:
  "find (\<lambda>p. preference_type p = t) (prefs_of (add_preference bank uid ptype v now) u) =
     (if u = uid \<and> t = ptype
      then (case find (\<lambda>p. preference_type p = ptype) (prefs_of bank uid) of
              Some p \<Rightarrow> Some (p\<lparr> pref_value := v, last_updated := now \<rparr>)
            | None \<Rightarrow> Some \<lparr> pref_user_id = uid, preference_type = ptype, pref_value = v,
                              pref_created_at = now, last_updated = now \<rparr>)
      else find (\<lambda>p. preference_type p = t) (prefs_of bank u))"
  by (auto simp: prefs_of_add_preference find_update_first find_append split: option.splits)

lemma map_of_foldl_update:
  "map_of (foldl (\<lambda>d p. AList.update (preference_type p) (pref_value p) d) d0 ps) t =
     (case find (\<lambda>p. preference_type p = t) (rev ps) of
        Some p \<Rightarrow> Some (pref_value p)
      | None \<Rightarrow> map_of d0 t)"
  by (induction ps rule: rev_induct) (auto simp: update_conv' split: option.splits)

lemma find_rev_distinct:
  "distinct (map f ps) \<Longrightarrow> find (\<lambda>p. f p = t) (rev ps) = find (\<lambda>p. f p = t) ps"
proof (induction ps)
  case Nil
  show ?case by simp
next
  case (Cons a ps)
  then have IH: "find (\<lambda>p. f p = t) (rev ps) = find (\<lambda>p. f p = t) ps" by simp
  show ?case
  proof (cases "f a = t")
    case True
    with Cons.prems have "t \<notin> f ` set ps" by simp
    then have "\<forall>p \<in> set ps. f p \<noteq> t" by blast
    then have "find (\<lambda>p. f p = t) ps = None" by (simp add: find_None_iff)
    with IH True show ?thesis by (simp add: find_append)
  next
    case False
    with IH show ?thesis by (simp add: find_append split: option.splits)
  qed
qed

lemma map_of_get_preferences:
  "distinct (map preference_type (prefs_of bank u)) \<Longrightarrow>
   map_of (get_preferences bank u) t =
     map_option pref_value (find (\<lambda>p. preference_type p = t) (prefs_of bank u))"
  by (simp add: get_preferences_def map_of_foldl_update find_rev_distinct split: option.splits)

lemma map_of_get_preferences_add:
  assumes "distinct (map preference_type (prefs_of bank u))"
  shows "map_of (get_preferences (add_preference bank uid ptype v now) u) t =
           (if u = uid \<and> t = ptype then Some v else map_of (get_preferences bank u) t)"
  using assms
  by (simp add: map_of_get_preferences distinct_add_preference find_add_preference
           split: option.splits)

text \<open>
  Claim C8. Start from a bank that holds at most one entry per type for the user, and run
  any sequence of \<open>add_preference\<close> writes (to any users and types, in any order). Then
  the mapping returned by \<open>get_preferences\<close> gives, for every type written for this user,
  the last value written for it, and for every other type what it gave before; the
  \<open>preferences\<close> of \<open>get_user_context\<close> is that same mapping.
\<close>

theorem get_preferences_last_written:
  assumes "\<forall>t. count_entries bank uid t \<le> 1"
  shows "map_of (get_preferences (run_writes bank ws) uid) ptype =
           (case last_written uid ptype ws of
              Some v \<Rightarrow> Some v
            | None \<Rightarrow> map_of (get_preferences bank uid) ptype)
       \<and> uc_preferences (get_user_context (run_writes bank ws) uid) =
           get_preferences (run_writes bank ws) uid"
proof -
  from assms have d: "distinct (map preference_type (prefs_of bank uid))"
    using count_le_one_distinct [of bank uid] by blast
  have "map_of (get_preferences (run_writes b ws) uid) ptype =
           (case last_written uid ptype ws of
              Some v \<Rightarrow> Some v
            | None \<Rightarrow> map_of (get_preferences b uid) ptype)"
    if "distinct (map preference_type (prefs_of b uid))" for b
    using that
  proof (induction ws arbitrary: b)
    case Nil
    show ?case by (simp add: run_writes_Nil)
  next
    case (Cons w ws)
    obtain u t v now where w: "w = (u, t, v, now)" by (cases w) auto
    have d': "distinct (map preference_type (prefs_of (add_preference b u t v now) uid))"
      by (rule distinct_add_preference [OF Cons.prems])
    show ?case
      unfolding w run_writes_Cons
      by (simp add: Cons.IH [OF d'] map_of_get_preferences_add [OF Cons.prems]
               split: option.splits)
  qed
  with d show ?thesis by (simp add: get_user_context_def)
qed


text \<open>
  Writes to two types of \<open>u1\<close>, interleaved with a write for another user; \<open>budget\<close> is
  written twice and reads as the second value.
\<close>

theorem get_preferences_last_written_witness:
  "(\<forall>t. count_entries empty_bank ''u1'' t \<le> 1)
   \<and> map_of (get_preferences
        (run_writes empty_bank
           [(''u1'', ''budget'', PInt 50, 1), (''u1'', ''cuisine'', PStr ''thai'', 2),
            (''u2'', ''budget'', PInt 9, 3), (''u1'', ''budget'', PInt 75, 4)]) ''u1'') ''budget''
       = Some (PInt 75)"
proof -
  have h: "\<forall>t. count_entries empty_bank ''u1'' t \<le> 1"
    by (simp add: count_entries_def prefs_of_def empty_bank_def)
  show ?thesis
    using h get_preferences_last_written [OF h,
      of "[(''u1'', ''budget'', PInt 50, 1), (''u1'', ''cuisine'', PStr ''thai'', 2),
            (''u2'', ''budget'', PInt 9, 3), (''u1'', ''budget'', PInt 75, 4)]" "''budget''"]
    by simp
qed

lemma count_entries_find:
  assumes "distinct (map preference_type (prefs_of bank u))"
  shows "count_entries bank u t = (case find (\<lambda>p. preference_type p = t) (prefs_of bank u) of None \<Rightarrow> 0 | Some _ \<Rightarrow> 1)"
proof -
  have "distinct (map preference_type ps) \<Longrightarrow>
        length (filter (\<lambda>p. preference_type p = t) ps) =
          (case find (\<lambda>p. preference_type p = t) ps of None \<Rightarrow> 0 | Some _ \<Rightarrow> 1)" for ps
  proof (induction ps)
    case Nil
    show ?case by simp
  next
    case (Cons a ps)
    show ?case
    proof (cases "preference_type a = t")
      case True
      with Cons.prems have "t \<notin> preference_type ` set ps" by simp
      then have "filter (\<lambda>p. preference_type p = t) ps = []"
        by (auto simp: filter_empty_conv)
      with True show ?thesis by simp
    next
      case False
      with Cons show ?thesis by simp
    qed
  qed
  with assms show ?thesis by (simp add: count_entries_def)
qed

text \<open>
  Claim C3. From a bank with at most one entry per user and type, every sequence of
  \<open>add_preference\<close> calls leaves at most one entry per user and type. A second write to
  the same type adds no entry: the list keeps its types and their positions, there is
  exactly one entry of that type, and it is the earlier entry with \<open>value\<close> and
  \<open>last_updated\<close> overwritten.
\<close>

theorem add_preference_upsert:
  assumes "\<forall>u t. count_entries bank u t \<le> 1"
  shows "(\<forall>u t. count_entries (run_writes bank ws) u t \<le> 1)
       \<and> count_entries (add_preference (add_preference bank uid ptype v1 n1) uid ptype v2 n2)
            uid ptype = 1
       \<and> map preference_type
            (prefs_of (add_preference (add_preference bank uid ptype v1 n1) uid ptype v2 n2) uid) =
          map preference_type (prefs_of (add_preference bank uid ptype v1 n1) uid)
       \<and> find (\<lambda>p. preference_type p = ptype)
            (prefs_of (add_preference (add_preference bank uid ptype v1 n1) uid ptype v2 n2) uid) =
          map_option (\<lambda>p. p\<lparr> pref_value := v2, last_updated := n2 \<rparr>)
            (find (\<lambda>p. preference_type p = ptype)
               (prefs_of (add_preference bank uid ptype v1 n1) uid))
       \<and> get_preference (add_preference (add_preference bank uid ptype v1 n1) uid ptype v2 n2)
            uid ptype = v2"
proof -
  let ?b1 = "add_preference bank uid ptype v1 n1"
  let ?b2 = "add_preference ?b1 uid ptype v2 n2"
  have d: "distinct (map preference_type (prefs_of bank u))" for u
    using assms count_le_one_distinct [of bank u] by blast
  have "distinct (map preference_type (prefs_of (run_writes bank ws) u))" for u
    by (rule distinct_run_writes [OF d])
  then have A: "\<forall>u t. count_entries (run_writes bank ws) u t \<le> 1"
    using count_le_one_distinct by blast
  have d1: "distinct (map preference_type (prefs_of ?b1 uid))"
    by (rule distinct_add_preference [OF d])
  have d2: "distinct (map preference_type (prefs_of ?b2 uid))"
    by (rule distinct_add_preference [OF d1])
  have f1: "find (\<lambda>p. preference_type p = ptype) (prefs_of ?b1 uid) \<noteq> None"
    by (simp add: find_add_preference split: option.splits)
  have B: "count_entries ?b2 uid ptype = 1"
    by (simp add: count_entries_find [OF d2] find_add_preference split: option.splits)
  have C: "map preference_type (prefs_of ?b2 uid) = map preference_type (prefs_of ?b1 uid)"
    using f1 by (subst types_add_preference) (auto simp: find_None_iff)
  have D: "find (\<lambda>p. preference_type p = ptype) (prefs_of ?b2 uid) =
          map_option (\<lambda>p. p\<lparr> pref_value := v2, last_updated := n2 \<rparr>)
            (find (\<lambda>p. preference_type p = ptype) (prefs_of ?b1 uid))"
    using f1 by (subst find_add_preference) (auto split: option.splits)
  have E: "get_preference ?b2 uid ptype = v2"
    unfolding get_preference_def by (subst find_add_preference) (simp split: option.splits)
  from A B C D E show ?thesis by blast
qed

text \<open>
  The scenario of the claim: \<open>budget\<close> is written as 50 and then as 75 into the empty bank.
\<close>

theorem add_preference_upsert_witness:
  "(\<forall>u t. count_entries empty_bank u t \<le> 1)
   \<and> prefs_of (add_preference (add_preference empty_bank ''u1'' ''budget'' (PInt 50) 10)
        ''u1'' ''budget'' (PInt 75) 20) ''u1'' =
       [\<lparr> pref_user_id = ''u1'', preference_type = ''budget'', pref_value = PInt 75,
          pref_created_at = 10, last_updated = 20 \<rparr>]
   \<and> count_entries (add_preference (add_preference empty_bank ''u1'' ''budget'' (PInt 50) 10)
        ''u1'' ''budget'' (PInt 75) 20) ''u1'' ''budget'' = 1
   \<and> get_preference (add_preference (add_preference empty_bank ''u1'' ''budget'' (PInt 50) 10)
        ''u1'' ''budget'' (PInt 75) 20) ''u1'' ''budget'' = PInt 75"
proof -
  have h: "\<forall>u t. count_entries empty_bank u t \<le> 1"
    by (simp add: count_entries_def prefs_of_def empty_bank_def)
  have e: "prefs_of (add_preference (add_preference empty_bank ''u1'' ''budget'' (PInt 50) 10)
        ''u1'' ''budget'' (PInt 75) 20) ''u1'' =
       [\<lparr> pref_user_id = ''u1'', preference_type = ''budget'', pref_value = PInt 75,
          pref_created_at = 10, last_updated = 20 \<rparr>]"
    by (simp add: add_preference_def prefs_of_def empty_bank_def)
  show ?thesis
    using h e add_preference_upsert [OF h, of "[]" "''u1''" "''budget''" "PInt 50" 10 "PInt 75" 20]
    by simp
qed




subsection \<open>Meal history\<close>

lemma history_of_add_meal_history:
  "history_of (add_meal_history bank uid plan fb now) u =
     (if u = uid
      then (let h = history_of bank uid @
                      [\<lparr> hist_user_id = uid, meal_plan = plan, date = now, feedback = fb \<rparr>]
            in if length h > 50 then last_n 50 h else h)
      else history_of bank u)"
  by (simp add: add_meal_history_def history_of_def Let_def)

text \<open>
  Claim C4. After \<open>add_meal_history\<close> the user's history has at most 50 entries, whatever
  it held before. When it held exactly 50, the oldest entry is dropped, the other 49 keep
  their order and the new entry comes last; below 50 the new entry is appended. The
  histories of other users are untouched.
\<close>

theorem add_meal_history_cap:
  "length (history_of (add_meal_history bank uid plan fb now) uid) \<le> 50
   \<and> (length (history_of bank uid) = 50 \<longrightarrow>
        history_of (add_meal_history bank uid plan fb now) uid =
          tl (history_of bank uid) @
            [\<lparr> hist_user_id = uid, meal_plan = plan, date = now, feedback = fb \<rparr>])
   \<and> (length (history_of bank uid) < 50 \<longrightarrow>
        history_of (add_meal_history bank uid plan fb now) uid =
          history_of bank uid @
            [\<lparr> hist_user_id = uid, meal_plan = plan, date = now, feedback = fb \<rparr>])
   \<and> (\<forall>u. u \<noteq> uid \<longrightarrow>
        history_of (add_meal_history bank uid plan fb now) u = history_of bank u)"
proof -
  let ?e = "\<lparr> hist_user_id = uid, meal_plan = plan, date = now, feedback = fb \<rparr>"
  have A: "length (history_of (add_meal_history bank uid plan fb now) uid) \<le> 50"
    by (simp add: history_of_add_meal_history Let_def last_n_def)
  have B: "history_of (add_meal_history bank uid plan fb now) uid = tl (history_of bank uid) @ [?e]"
    if "length (history_of bank uid) = 50"
  proof -
    from that obtain x xs where xs: "history_of bank uid = x # xs"
      by (cases "history_of bank uid") auto
    with that show ?thesis
      by (simp add: history_of_add_meal_history Let_def last_n_def)
  qed
  have C: "history_of (add_meal_history bank uid plan fb now) uid = history_of bank uid @ [?e]"
    if "length (history_of bank uid) < 50"
    using that by (simp add: history_of_add_meal_history Let_def)
  have D: "\<forall>u. u \<noteq> uid \<longrightarrow>
        history_of (add_meal_history bank uid plan fb now) u = history_of bank u"
    by (simp add: history_of_add_meal_history)
  from A B C D show ?thesis by blast
qed

theorem add_meal_history_cap_witness:
  "length (history_of full_bank ''u1'') = 50
   \<and> length (history_of (add_meal_history full_bank ''u1'' (demo_plan 50) None 50) ''u1'') = 50
   \<and> history_of (add_meal_history full_bank ''u1'' (demo_plan 50) None 50) ''u1'' =
       tl full_history @
         [\<lparr> hist_user_id = ''u1'', meal_plan = demo_plan 50, date = 50, feedback = None \<rparr>]"
proof -
  have h: "history_of full_bank ''u1'' = full_history"
    by (simp add: history_of_def full_bank_def)
  have l: "length full_history = 50"
    by (simp add: full_history_def)
  show ?thesis
    using h l add_meal_history_cap [of full_bank "''u1''" "demo_plan 50" None 50]
    by simp
qed

section \<open>Properties of the session store\<close>

text \<open>
  Claim C2. For a stored session, \<open>get_session\<close> tests \<open>now1 - last_accessed > timeout\<close>.
  When the test holds the call returns \<open>None\<close> and the session is gone from the store;
  otherwise it returns the session with \<open>last_accessed\<close> set to the second clock
  reading, and stores it so. No other session and not the timeout are changed.
\<close>

theorem get_session_expiry_and_refresh:
  assumes "map_of (sessions svc) sid = Some s"
    and "get_session svc sid now1 now2 = (r, svc')"
  shows "(now1 - last_accessed s > session_timeout svc \<longrightarrow>
            r = None \<and> map_of (sessions svc') sid = None \<and> sid \<notin> fst ` set (sessions svc'))
       \<and> (\<not> now1 - last_accessed s > session_timeout svc \<longrightarrow>
            r = Some (s\<lparr> last_accessed := now2 \<rparr>)
            \<and> map_of (sessions svc') sid = Some (s\<lparr> last_accessed := now2 \<rparr>))
       \<and> (\<forall>k. k \<noteq> sid \<longrightarrow> map_of (sessions svc') k = map_of (sessions svc) k)
       \<and> session_timeout svc' = session_timeout svc"
proof -
  from assms(1) have mem: "sid \<in> fst ` set (sessions svc)"
    by (metis domI dom_map_of_conv_image_fst)
  show ?thesis
  proof (cases "now1 - last_accessed s > session_timeout svc")
    case True
    with assms mem have r: "r = None"
      and svc': "svc' = svc\<lparr> sessions := AList.delete sid (sessions svc) \<rparr>"
      by (simp_all add: get_session_def delete_session_def)
    have "sid \<notin> fst ` set (sessions svc')"
      unfolding svc' using delete_notin_dom [of sid "sessions svc"] by simp
    with True r svc' show ?thesis
      by (simp add: delete_conv')
  next
    case False
    with assms have r: "r = Some (s\<lparr> last_accessed := now2 \<rparr>)"
      and svc': "svc' = svc\<lparr> sessions := AList.update sid (s\<lparr> last_accessed := now2 \<rparr>)
                                              (sessions svc) \<rparr>"
      by (simp_all add: get_session_def Let_def)
    with False show ?thesis
      by (simp add: update_conv')
  qed
qed

theorem get_session_expiry_and_refresh_witness:
  "map_of (sessions demo_service) ''s1'' = Some demo_session
   \<and> get_session demo_service ''s1'' 3601 3602 = (None, demo_service\<lparr> sessions := [] \<rparr>)
   \<and> get_session demo_service ''s1'' 3600 3602 =
       (Some (demo_session\<lparr> last_accessed := 3602 \<rparr>),
        demo_service\<lparr> sessions := [(''s1'', demo_session\<lparr> last_accessed := 3602 \<rparr>)] \<rparr>)
   \<and> fst (get_session demo_service ''s1'' 3601 3602) = None
   \<and> map_of (sessions (snd (get_session demo_service ''s1'' 3601 3602))) ''s1'' = None
   \<and> fst (get_session demo_service ''s1'' 3600 3602) = Some (demo_session\<lparr> last_accessed := 3602 \<rparr>)"
proof -
  have h: "map_of (sessions demo_service) ''s1'' = Some demo_session"
    by (simp add: demo_service_def)
  have e1: "get_session demo_service ''s1'' 3601 3602 = (None, demo_service\<lparr> sessions := [] \<rparr>)"
    by (simp add: get_session_def delete_session_def demo_service_def demo_session_def
                  AList.delete_eq)
  have e2: "get_session demo_service ''s1'' 3600 3602 =
       (Some (demo_session\<lparr> last_accessed := 3602 \<rparr>),
        demo_service\<lparr> sessions := [(''s1'', demo_session\<lparr> last_accessed := 3602 \<rparr>)] \<rparr>)"
    by (simp add: get_session_def delete_session_def demo_service_def demo_session_def Let_def)
  have t: "session_timeout demo_service = 3600" "last_accessed demo_session = 0"
    by (simp_all add: demo_service_def demo_session_def)
  show ?thesis
    using h e1 e2 t
      get_session_expiry_and_refresh [OF h e1]
      get_session_expiry_and_refresh [OF h e2]
    by simp
qed

text \<open>
  Claim C10. \<open>get_user_sessions\<close> returns exactly the stored sessions of the user, in
  the order of the store and as they are stored (there is no expiry test, so a session
  whose idle time exceeds the timeout is returned too), and the store after the call is
  the store before it.
\<close>

theorem get_user_sessions_pure:
  "get_user_sessions svc uid = (ss, svc') \<Longrightarrow>
     svc' = svc
     \<and> ss = map snd (filter (\<lambda>(sid, s). user_id s = uid) (sessions svc))
     \<and> (\<forall>s. s \<in> set ss \<longleftrightarrow> (\<exists>sid. (sid, s) \<in> set (sessions svc)) \<and> user_id s = uid)"
proof -
  assume "get_user_sessions svc uid = (ss, svc')"
  then have fr: "svc' = svc"
    and ss: "ss = filter (\<lambda>s. user_id s = uid) (map snd (sessions svc))"
    by (auto simp: get_user_sessions_def)
  have eq: "ss = map snd (filter (\<lambda>(sid, s). user_id s = uid) (sessions svc))"
    unfolding ss by (simp add: filter_map comp_def case_prod_unfold)
  have mem: "s \<in> set ss \<longleftrightarrow> (\<exists>sid. (sid, s) \<in> set (sessions svc)) \<and> user_id s = uid" for s
    unfolding ss by force
  from fr eq mem show ?thesis by blast
qed

text \<open>
  A store with a session that \<open>get_session\<close> would evict at time 9000:
  \<open>get_user_sessions\<close> still lists it and leaves the store as it is.
\<close>

theorem get_user_sessions_pure_witness:
  "get_user_sessions two_sessions ''u1'' =
     ([old_session, demo_session\<lparr> last_accessed := 9000 \<rparr>], two_sessions)
   \<and> 9000 - last_accessed old_session > session_timeout two_sessions
   \<and> fst (get_session two_sessions ''s0'' 9000 9000) = None
   \<and> old_session \<in> set (fst (get_user_sessions two_sessions ''u1''))"
proof -
  have e: "get_user_sessions two_sessions ''u1'' =
     ([old_session, demo_session\<lparr> last_accessed := 9000 \<rparr>], two_sessions)"
    by (simp add: get_user_sessions_def two_sessions_def old_session_def demo_session_def)
  have g: "fst (get_session two_sessions ''s0'' 9000 9000) = None"
    by (simp add: get_session_def delete_session_def two_sessions_def old_session_def)
  have x: "9000 - last_accessed old_session > session_timeout two_sessions"
    by (simp add: two_sessions_def old_session_def)
  have m: "old_session \<in> set (fst (get_user_sessions two_sessions ''u1''))"
    by (simp add: e)
  show ?thesis
    using e g x m get_user_sessions_pure [OF e]
    by blast
qed


section \<open>Properties of the planner and of the plan the workflow returns\<close>

lemma day_types_day_meals:
  "map (\<lambda>m. (day m, meal_type m)) (day_meals draws k sel d mts) = map (Pair d) mts"
  by (induction mts arbitrary: k) (auto simp: Let_def)

lemma day_types_plan_days:
  "map (\<lambda>m. (day m, meal_type m)) (plan_days draws k sel ds) = List.product ds meal_types"
  by (induction ds arbitrary: k) (auto simp: day_types_day_meals)

lemma length_plan_days: "length (plan_days draws k sel ds) = 3 * length ds"
proof -
  have "length (plan_days draws k sel ds) =
          length (map (\<lambda>m. (day m, meal_type m)) (plan_days draws k sel ds))"
    by simp
  also have "\<dots> = 3 * length ds"
    unfolding day_types_plan_days by (simp add: meal_types_def)
  finally show ?thesis .
qed

lemma count_in_distinct:
  assumes "distinct xs" and "x \<in> set xs"
  shows "length (filter (\<lambda>y. y = x) xs) = 1"
  using assms by (induction xs) (auto simp: filter_empty_conv)

lemma once_per_day_and_type:
  assumes "map (\<lambda>m. (day m, meal_type m)) ms = List.product [1..n] meal_types"
    and "d \<in> {1..n}" and "t \<in> set meal_types"
  shows "length (filter (\<lambda>m. day m = d \<and> meal_type m = t) ms) = 1"
proof -
  have "length (filter (\<lambda>m. day m = d \<and> meal_type m = t) ms) =
          length (filter (\<lambda>p. p = (d, t)) (map (\<lambda>m. (day m, meal_type m)) ms))"
    by (induction ms) auto
  also have "\<dots> = 1"
    unfolding assms(1)
    by (rule count_in_distinct)
       (use assms(2,3) in \<open>auto simp: distinct_product meal_types_def\<close>)
  finally show ?thesis .
qed

lemma days_in_range:
  assumes "map (\<lambda>m. (day m, meal_type m)) ms = List.product [1..n] meal_types"
    and "m \<in> set ms"
  shows "1 \<le> day m \<and> day m \<le> n"
proof -
  from assms(2) have "(day m, meal_type m) \<in> set (map (\<lambda>m. (day m, meal_type m)) ms)"
    by force
  then show ?thesis
    unfolding assms(1) by simp
qed

lemma mock_plan_meals:
  "meals (generate_mock_meal_plan draws n restrictions prefs) =
     plan_days draws 0 (selected_meals restrictions) [1..n]"
  by (simp add: generate_mock_meal_plan_def Let_def)

lemma mock_plan_shape:
  "map (\<lambda>m. (day m, meal_type m)) (meals (generate_mock_meal_plan draws n restrictions prefs)) =
     List.product [1..n] meal_types"
  by (simp add: mock_plan_meals day_types_plan_days)

lemma mock_plan_length:
  "length (meals (generate_mock_meal_plan draws n restrictions prefs)) = 3 * nat n"
  by (simp add: mock_plan_meals length_plan_days)

lemma planner_falls_back_plan:
  assumes "planner_falls_back reply loads"
  shows "\<exists>r p. meal_planner_plan_meals reply loads draws n restrictions prefs =
                 generate_mock_meal_plan draws n r p"
  using assms
  by (auto simp: planner_falls_back_def meal_planner_plan_meals_def parse_llm_response_def
           split: option.splits llm_reply.splits)

lemma get_session_live:
  assumes "map_of (sessions svc) sid = Some s"
    and "\<not> now1 - last_accessed s > session_timeout svc"
  shows "get_session svc sid now1 now2 =
           (Some (s\<lparr> last_accessed := now2 \<rparr>),
            svc\<lparr> sessions := AList.update sid (s\<lparr> last_accessed := now2 \<rparr>) (sessions svc) \<rparr>)"
  using assms by (simp add: get_session_def Let_def)

lemma plan_meals_live_result:
  assumes "map_of (sessions (session_service orch)) sid = Some s"
    and "\<not> env_clock e 0 - last_accessed s > session_timeout (session_service orch)"
  shows "\<exists>res. fst (orchestrator_plan_meals e orch sid n restrictions prefs inc_n inc_s) = Inr res
           \<and> res_meal_plan res =
               meal_planner_plan_meals (env_llm e) (env_json_loads e) (env_rnd e) n restrictions prefs
           \<and> res_recipes res =
               find_recipes_for_meals (env_search_recipes e) (env_result_raises e)
                 (env_as_completed e) (meals (res_meal_plan res)) restrictions
           \<and> res_session_id res = sid"
  by (simp add: orchestrator_plan_meals_def get_session_live [OF assms] Let_def)

text \<open>
  Claim C1, as amended. When the session is live and the planner generates the plan
  locally (no model is configured, the call of the model times out or fails, or its
  response is empty or holds no JSON that parses), the workflow returns a plan with
  exactly \<open>3 * days\<close> meals, every meal has a day number from 1 to \<open>days\<close>, and every
  day has exactly one breakfast, one lunch and one dinner. This holds for every \<open>days\<close>,
  so for every \<open>days \<ge> 1\<close>. A plan that parses from the model's response is returned as
  it is: see the counterexample below.
\<close>

theorem workflow_local_plan_three_meals_per_day:
  assumes "map_of (sessions (session_service orch)) sid = Some s"
    and "\<not> env_clock e 0 - last_accessed s > session_timeout (session_service orch)"
    and "planner_falls_back (env_llm e) (env_json_loads e)"
  shows "\<exists>ms. result_meals (fst (orchestrator_plan_meals e orch sid n restrictions prefs inc_n inc_s))
                 = Some ms
           \<and> length ms = 3 * nat n
           \<and> (\<forall>m \<in> set ms. 1 \<le> day m \<and> day m \<le> n)
           \<and> (\<forall>d \<in> {1..n}. \<forall>t \<in> set meal_types.
                 length (filter (\<lambda>m. day m = d \<and> meal_type m = t) ms) = 1)"
proof -
  from plan_meals_live_result [OF assms(1,2)] obtain res where
    res: "fst (orchestrator_plan_meals e orch sid n restrictions prefs inc_n inc_s) = Inr res"
    and plan: "res_meal_plan res =
        meal_planner_plan_meals (env_llm e) (env_json_loads e) (env_rnd e) n restrictions prefs"
    by blast
  from planner_falls_back_plan [OF assms(3)] obtain r p where
    mock: "meal_planner_plan_meals (env_llm e) (env_json_loads e) (env_rnd e) n restrictions prefs
            = generate_mock_meal_plan (env_rnd e) n r p"
    by blast
  let ?ms = "meals (generate_mock_meal_plan (env_rnd e) n r p)"
  have shape: "map (\<lambda>m. (day m, meal_type m)) ?ms = List.product [1..n] meal_types"
    by (rule mock_plan_shape)
  have A: "result_meals (fst (orchestrator_plan_meals e orch sid n restrictions prefs inc_n inc_s))
             = Some ?ms"
    by (simp add: res result_meals_def plan mock)
  have B: "length ?ms = 3 * nat n"
    by (rule mock_plan_length)
  have C: "\<forall>m \<in> set ?ms. 1 \<le> day m \<and> day m \<le> n"
    using days_in_range [OF shape] by blast
  have D: "\<forall>d \<in> {1..n}. \<forall>t \<in> set meal_types.
             length (filter (\<lambda>m. day m = d \<and> meal_type m = t) ?ms) = 1"
    using once_per_day_and_type [OF shape] by blast
  from A B C D show ?thesis by blast
qed

lemma demo_session_live:
  "map_of (sessions (session_service demo_orchestrator)) ''s1'' =
     Some \<lparr> session_id = ''s1'', user_id = ''u1'', created_at = 0, last_accessed = 0,
            session_context = [], session_preferences = [] \<rparr>"
  by (simp add: demo_orchestrator_def)

text \<open>No model is configured, the session is live, two days are planned: six meals.\<close>

theorem workflow_local_plan_three_meals_per_day_witness:
  "planner_falls_back (env_llm demo_env) (env_json_loads demo_env)
   \<and> (\<exists>ms. result_meals (fst (orchestrator_plan_meals demo_env demo_orchestrator ''s1'' 2
                               (Some [''vegetarian'']) None True True)) = Some ms
          \<and> length ms = 6)"
proof -
  have live: "\<not> env_clock demo_env 0 -
                 last_accessed \<lparr> session_id = ''s1'', user_id = ''u1'', created_at = 0,
                                  last_accessed = 0, session_context = [],
                                  session_preferences = [] \<rparr>
               > session_timeout (session_service demo_orchestrator)"
    by (simp add: demo_env_def clock_zero_def demo_orchestrator_def)
  have fb: "planner_falls_back (env_llm demo_env) (env_json_loads demo_env)"
    by (simp add: planner_falls_back_def demo_env_def)
  show ?thesis
    using fb workflow_local_plan_three_meals_per_day [OF demo_session_live live fb,
            of 2 "Some [''vegetarian'']" None True True]
    by auto
qed

text \<open>
  Claim C1 as stated fails when the model answers: the response \<open>{"meals": []}\<close> parses,
  and the workflow returns that plan for \<open>days = 2\<close>, with no meal in it instead of six.
\<close>

theorem workflow_plan_from_model_counterexample:
  "result_meals (fst (orchestrator_plan_meals reply_env demo_orchestrator ''s1'' 2
                        None None True True)) = Some []
   \<and> length ([] :: meal list) \<noteq> 3 * nat 2"
proof -
  have p: \<open>parsed_response loads_empty_plan ''{"meals": []}'' = Some empty_plan\<close>
    by (simp add: parsed_response_def py_in_def py_find_def py_rfind_def py_slice_def
                  loads_empty_plan_def)
  have m: "meal_planner_plan_meals (env_llm reply_env) (env_json_loads reply_env)
             (env_rnd reply_env) 2 None None = empty_plan"
    by (simp add: reply_env_def demo_env_def meal_planner_plan_meals_def
                  parse_llm_response_def p)
  have live: "\<not> env_clock reply_env 0 -
                 last_accessed \<lparr> session_id = ''s1'', user_id = ''u1'', created_at = 0,
                                  last_accessed = 0, session_context = [],
                                  session_preferences = [] \<rparr>
               > session_timeout (session_service demo_orchestrator)"
    by (simp add: reply_env_def demo_env_def clock_zero_def demo_orchestrator_def)
  from plan_meals_live_result [OF demo_session_live live, of 2 None None True True]
  show ?thesis
    by (auto simp: result_meals_def m empty_plan_def)
qed

lemma random_choice_in: "seq \<noteq> [] \<Longrightarrow> random_choice r seq \<in> set seq"
  by (simp add: random_choice_def)

lemma selected_meals_nonempty: "mt \<in> set meal_types \<Longrightarrow> selected_meals restrictions mt \<noteq> []"
  by (auto simp: meal_types_def selected_meals_def options_get_def options_at_def
                 meal_options_def)

lemma day_meals_names:
  assumes "\<forall>mt \<in> set mts. sel mt \<noteq> []" and "m \<in> set (day_meals draws k sel d mts)"
  shows "name m \<in> set (sel (meal_type m))
         \<and> description m = ''A delicious '' @ lower (name m) @ '' for '' @ meal_type m"
  using assms
  by (induction mts arbitrary: k) (auto simp: Let_def random_choice_in)

lemma plan_days_names:
  assumes "\<forall>mt \<in> set meal_types. sel mt \<noteq> []" and "m \<in> set (plan_days draws k sel ds)"
  shows "name m \<in> set (sel (meal_type m))
         \<and> description m = ''A delicious '' @ lower (name m) @ '' for '' @ meal_type m"
  using assms(2)
proof (induction ds arbitrary: k)
  case Nil
  then show ?case by simp
next
  case (Cons d ds)
  then show ?case
    using day_meals_names [OF assms(1)] by auto
qed

lemma day_meals_cong:
  assumes "\<forall>j < length mts. draws1 (k + j) = draws2 (k + j)"
  shows "day_meals draws1 k sel d mts = day_meals draws2 k sel d mts"
  using assms
proof (induction mts arbitrary: k)
  case Nil
  show ?case by simp
next
  case (Cons mt mts)
  from Cons.prems have h0: "draws1 k = draws2 k" by force
  have "\<forall>j < length mts. draws1 (Suc k + j) = draws2 (Suc k + j)"
  proof (intro allI impI)
    fix j assume "j < length mts"
    then have "Suc j < length (mt # mts)" by simp
    with Cons.prems have "draws1 (k + Suc j) = draws2 (k + Suc j)" by blast
    then show "draws1 (Suc k + j) = draws2 (Suc k + j)" by simp
  qed
  from Cons.IH [OF this] h0 show ?case by (simp add: Let_def)
qed

lemma plan_days_cong:
  assumes "\<forall>j < 3 * length ds. draws1 (k + j) = draws2 (k + j)"
  shows "plan_days draws1 k sel ds = plan_days draws2 k sel ds"
  using assms
proof (induction ds arbitrary: k)
  case Nil
  show ?case by simp
next
  case (Cons d ds)
  have a: "day_meals draws1 k sel d meal_types = day_meals draws2 k sel d meal_types"
  proof (rule day_meals_cong, intro allI impI)
    fix j assume "j < length meal_types"
    then have "j < 3 * length (d # ds)" by (simp add: meal_types_def)
    with Cons.prems show "draws1 (k + j) = draws2 (k + j)" by blast
  qed
  have "\<forall>j < 3 * length ds. draws1 (k + 3 + j) = draws2 (k + 3 + j)"
  proof (intro allI impI)
    fix j assume "j < 3 * length ds"
    then have "3 + j < 3 * length (d # ds)" by simp
    with Cons.prems have "draws1 (k + (3 + j)) = draws2 (k + (3 + j))" by blast
    then show "draws1 (k + 3 + j) = draws2 (k + 3 + j)" by (simp add: add.assoc)
  qed
  from Cons.IH [OF this] have b:
    "plan_days draws1 (k + length meal_types) sel ds = plan_days draws2 (k + length meal_types) sel ds"
    by (simp add: meal_types_def numeral_3_eq_3)
  show ?case by (simp only: plan_days.simps a b)
qed

text \<open>
  Claim C6, as amended. Two invocations of the local generator on the same input return
  plans with the same day and meal type at every position (so the same number of meals),
  the same summary, days, restrictions and preferences. Every name is taken from the
  option list that the restrictions select for the meal type, and the description is built
  from the name. The two plans are equal when the draws of \<open>random.choice\<close> are.
\<close>

theorem mock_plans_agree_up_to_names:
  "map (\<lambda>m. (day m, meal_type m)) (meals (generate_mock_meal_plan draws1 n restrictions prefs)) =
     map (\<lambda>m. (day m, meal_type m)) (meals (generate_mock_meal_plan draws2 n restrictions prefs))
   \<and> summary (generate_mock_meal_plan draws1 n restrictions prefs) =
       summary (generate_mock_meal_plan draws2 n restrictions prefs)
   \<and> days (generate_mock_meal_plan draws1 n restrictions prefs) =
       days (generate_mock_meal_plan draws2 n restrictions prefs)
   \<and> dietary_restrictions (generate_mock_meal_plan draws1 n restrictions prefs) =
       dietary_restrictions (generate_mock_meal_plan draws2 n restrictions prefs)
   \<and> plan_preferences (generate_mock_meal_plan draws1 n restrictions prefs) =
       plan_preferences (generate_mock_meal_plan draws2 n restrictions prefs)
   \<and> (\<forall>m \<in> set (meals (generate_mock_meal_plan draws1 n restrictions prefs)).
         name m \<in> set (selected_meals restrictions (meal_type m))
         \<and> description m = ''A delicious '' @ lower (name m) @ '' for '' @ meal_type m)
   \<and> ((\<forall>k < 3 * nat n. draws1 k = draws2 k) \<longrightarrow>
         generate_mock_meal_plan draws1 n restrictions prefs =
         generate_mock_meal_plan draws2 n restrictions prefs)"
proof -
  let ?p1 = "generate_mock_meal_plan draws1 n restrictions prefs"
  let ?p2 = "generate_mock_meal_plan draws2 n restrictions prefs"
  have A: "map (\<lambda>m. (day m, meal_type m)) (meals ?p1) = map (\<lambda>m. (day m, meal_type m)) (meals ?p2)"
    by (simp add: mock_plan_shape)
  have B: "summary ?p1 = summary ?p2"
    by (simp add: generate_mock_meal_plan_def Let_def length_plan_days)
  have C: "days ?p1 = days ?p2" "dietary_restrictions ?p1 = dietary_restrictions ?p2"
    "plan_preferences ?p1 = plan_preferences ?p2"
    by (simp_all add: generate_mock_meal_plan_def Let_def)
  have D: "\<forall>m \<in> set (meals ?p1).
         name m \<in> set (selected_meals restrictions (meal_type m))
         \<and> description m = ''A delicious '' @ lower (name m) @ '' for '' @ meal_type m"
    unfolding mock_plan_meals
    using plan_days_names [of "selected_meals restrictions"] selected_meals_nonempty
    by blast
  have E: "?p1 = ?p2" if "\<forall>k < 3 * nat n. draws1 k = draws2 k"
  proof -
    have "plan_days draws1 0 (selected_meals restrictions) [1..n] =
          plan_days draws2 0 (selected_meals restrictions) [1..n]"
      by (rule plan_days_cong) (use that in simp)
    then show ?thesis by (simp add: generate_mock_meal_plan_def)
  qed
  from A B C D E show ?thesis by blast
qed

text \<open>
  Two sequences of draws that agree on the three draws that a one-day plan consumes, and
  differ afterwards.
\<close>

theorem mock_plans_agree_up_to_names_witness:
  "draws_zero 0 = draws_zero_then_one 0
   \<and> draws_zero 1 = draws_zero_then_one 1
   \<and> draws_zero 2 = draws_zero_then_one 2
   \<and> draws_zero 3 \<noteq> draws_zero_then_one 3
   \<and> generate_mock_meal_plan draws_zero 1 None None =
       generate_mock_meal_plan draws_zero_then_one 1 None None
   \<and> meals (generate_mock_meal_plan draws_zero 1 None None) \<noteq> []
   \<and> map meal_type (meals (generate_mock_meal_plan draws_zero 1 None None)) =
       map meal_type (meals (generate_mock_meal_plan draws_one 1 None None))"
proof -
  have h: "\<forall>k < 3 * nat 1. draws_zero k = draws_zero_then_one k"
    by (simp add: draws_zero_def draws_zero_then_one_def)
  have d: "draws_zero 3 \<noteq> draws_zero_then_one 3"
    by (simp add: draws_zero_def draws_zero_then_one_def)
  have ne: "meals (generate_mock_meal_plan draws_zero 1 None None) \<noteq> []"
    using mock_plan_length [of draws_zero 1 None None] by auto
  have "map (\<lambda>m. (day m, meal_type m)) (meals (generate_mock_meal_plan draws_zero 1 None None)) =
        map (\<lambda>m. (day m, meal_type m)) (meals (generate_mock_meal_plan draws_one 1 None None))"
    using mock_plans_agree_up_to_names [of draws_zero 1 None None draws_one] by blast
  then have "map snd (map (\<lambda>m. (day m, meal_type m)) (meals (generate_mock_meal_plan draws_zero 1 None None))) =
        map snd (map (\<lambda>m. (day m, meal_type m)) (meals (generate_mock_meal_plan draws_one 1 None None)))"
    by simp
  then have t: "map meal_type (meals (generate_mock_meal_plan draws_zero 1 None None)) =
       map meal_type (meals (generate_mock_meal_plan draws_one 1 None None))"
    by (simp add: comp_def)
  have z: "draws_zero 0 = draws_zero_then_one 0" "draws_zero 1 = draws_zero_then_one 1"
    "draws_zero 2 = draws_zero_then_one 2"
    by (simp_all add: draws_zero_def draws_zero_then_one_def)
  show ?thesis
    using h d ne t z
      mock_plans_agree_up_to_names [of draws_zero 1 None None draws_zero_then_one]
    by blast
qed

text \<open>
  Claim C6 as stated fails: the names come from \<open>random.choice\<close>. With the draws 0 the
  one-day plan starts with "Oatmeal with berries", with the draws 1 it starts with
  "Scrambled eggs with toast".
\<close>

theorem mock_plan_random_counterexample:
  "generate_mock_meal_plan draws_zero 1 None None \<noteq> generate_mock_meal_plan draws_one 1 None None"
proof
  assume "generate_mock_meal_plan draws_zero 1 None None = generate_mock_meal_plan draws_one 1 None None"
  then have "map name (meals (generate_mock_meal_plan draws_zero 1 None None)) =
             map name (meals (generate_mock_meal_plan draws_one 1 None None))"
    by simp
  then show False
    by (simp add: generate_mock_meal_plan_def Let_def meal_types_def selected_meals_def
                  truthy_def options_at_def meal_options_def random_choice_def
                  draws_zero_def draws_one_def upto_rec1)
qed


section \<open>Properties of the recipe finder\<close>

lemma fst_process_meal: "fst (process_meal search restrictions m) = name m"
  by (simp add: process_meal_def Let_def split: search_result.splits list.splits)

lemma collect_result_entry:
  "collect_result search raises restrictions acc fut =
     AList.update (fst (future_entry search raises restrictions fut))
                  (snd (future_entry search raises restrictions fut)) acc"
proof (cases fut)
  case (Pair i m)
  obtain a b where pm: "process_meal search restrictions m = (a, b)"
    by (cases "process_meal search restrictions m") auto
  with fst_process_meal [of search restrictions m] have "a = name m" by simp
  with Pair pm show ?thesis
    by (simp add: collect_result_def future_entry_def)
qed

lemma update_new_key: "k \<notin> fst ` set al \<Longrightarrow> AList.update k v al = al @ [(k, v)]"
  by (induction al) auto

lemma foldl_update_distinct:
  "distinct (map fst (acc @ kvs)) \<Longrightarrow>
   foldl (\<lambda>acc kv. AList.update (fst kv) (snd kv) acc) acc kvs = acc @ kvs"
proof (induction kvs arbitrary: acc)
  case Nil
  show ?case by simp
next
  case (Cons kv kvs)
  from Cons.prems have new: "fst kv \<notin> fst ` set acc" by auto
  from Cons.prems have d: "distinct (map fst ((acc @ [kv]) @ kvs))" by simp
  have "AList.update (fst kv) (snd kv) acc = acc @ [kv]"
    using update_new_key [OF new, of "snd kv"] by simp
  with Cons.IH [OF d] show ?case by simp
qed

lemma collected_entries:
  assumes "distinct (map (\<lambda>fut. name (snd fut)) futs)"
  shows "foldl (collect_result search raises restrictions) [] futs =
           map (future_entry search raises restrictions) futs"
proof -
  let ?g = "future_entry search raises restrictions"
  have keys: "map fst (map ?g futs) = map (\<lambda>fut. name (snd fut)) futs"
    by (simp add: future_entry_def case_prod_unfold comp_def)
  have step: "collect_result search raises restrictions =
                (\<lambda>acc fut. AList.update (fst (?g fut)) (snd (?g fut)) acc)"
    by (intro ext) (rule collect_result_entry)
  have "foldl (collect_result search raises restrictions) [] futs =
          foldl (\<lambda>acc kv. AList.update (fst kv) (snd kv) acc) [] (map ?g futs)"
    by (simp add: foldl_map step)
  also have "\<dots> = [] @ map ?g futs"
    by (rule foldl_update_distinct) (simp only: append_Nil keys assms)
  finally show ?thesis by simp
qed

lemma names_of_futures: "map (\<lambda>fut. name (snd fut)) (zip [0..<length ms] ms) = map name ms"
proof -
  have "map snd (zip [0..<length ms] ms) = ms"
    by (simp add: map_snd_zip)
  then have "map name (map snd (zip [0..<length ms] ms)) = map name ms"
    by simp
  moreover have "map name (map snd (zip [0..<length ms] ms)) =
                 map (\<lambda>fut. name (snd fut)) (zip [0..<length ms] ms)"
    by (simp only: map_map comp_def)
  ultimately show ?thesis by simp
qed

text \<open>
  Claim C5, as amended. The results are stored under the meal's name. When the names of
  the input meals are pairwise distinct, then in whatever order the futures complete:
  \<open>total_meals\<close> is the number of input meals; the stored entries are those of the
  futures, one per meal; the entry of a meal is \<open>None\<close> when its own future raises and
  otherwise what its own lookup gave, whatever happens to the other meals; and
  \<open>recipes_found\<close> is the number of meals whose lookup succeeded.
\<close>

theorem find_recipes_distinct_names:
  assumes perm: "mset (completion (zip [0..<length ms] ms)) = mset (zip [0..<length ms] ms)"
    and dist: "distinct (map name ms)"
  shows "total_meals (find_recipes_for_meals search raises completion ms restrictions) = length ms
       \<and> meal_recipes (find_recipes_for_meals search raises completion ms restrictions) =
           map (future_entry search raises restrictions) (completion (zip [0..<length ms] ms))
       \<and> (\<forall>i < length ms.
             map_of (meal_recipes (find_recipes_for_meals search raises completion ms restrictions))
                    (name (ms ! i)) =
               Some (if raises i then None else snd (process_meal search restrictions (ms ! i))))
       \<and> recipes_found (find_recipes_for_meals search raises completion ms restrictions) =
           length (filter (lookup_succeeded search raises restrictions) (zip [0..<length ms] ms))"
proof -
  let ?futs = "zip [0..<length ms] ms"
  let ?done = "completion ?futs"
  let ?g = "future_entry search raises restrictions"
  let ?res = "find_recipes_for_meals search raises completion ms restrictions"
  have "mset (map (\<lambda>fut. name (snd fut)) ?done) = mset (map (\<lambda>fut. name (snd fut)) ?futs)"
    using perm by (metis mset_map)
  then have "distinct (map (\<lambda>fut. name (snd fut)) ?done) \<longleftrightarrow>
             distinct (map (\<lambda>fut. name (snd fut)) ?futs)"
    by (rule mset_eq_imp_distinct_iff)
  with dist have dd: "distinct (map (\<lambda>fut. name (snd fut)) ?done)"
    by (simp add: names_of_futures)
  have found: "meal_recipes ?res = map ?g ?done"
    by (simp add: find_recipes_for_meals_def Let_def collected_entries [OF dd])
  have A: "total_meals ?res = length ms"
    by (simp add: find_recipes_for_meals_def Let_def)
  have keys: "map fst (map ?g ?done) = map (\<lambda>fut. name (snd fut)) ?done"
    by (simp add: future_entry_def case_prod_unfold comp_def)
  have C: "map_of (meal_recipes ?res) (name (ms ! i)) =
             Some (if raises i then None else snd (process_meal search restrictions (ms ! i)))"
    if "i < length ms" for i
  proof -
    from that have "?futs ! i = (i, ms ! i)" and "i < length ?futs"
      by simp_all
    then have "(i, ms ! i) \<in> set ?futs"
      by (metis nth_mem)
    then have "(i, ms ! i) \<in> set ?done"
      using perm by (metis mset_eq_setD)
    then have "?g (i, ms ! i) \<in> set (map ?g ?done)" by simp
    then have "(name (ms ! i),
                if raises i then None else snd (process_meal search restrictions (ms ! i)))
               \<in> set (map ?g ?done)"
      by (simp add: future_entry_def)
    moreover have "distinct (map fst (map ?g ?done))"
      by (simp only: keys dd)
    ultimately show ?thesis
      unfolding found by (simp only: map_of_eq_Some_iff)
  qed
  have "recipes_found ?res = length (filter (\<lambda>r. r \<noteq> None) (map snd (meal_recipes ?res)))"
    by (simp add: find_recipes_for_meals_def Let_def)
  also have "\<dots> = length (filter (\<lambda>r. r \<noteq> None) (map snd (map ?g ?done)))"
    by (simp only: found)
  also have "\<dots> = length (filter (lookup_succeeded search raises restrictions) ?done)"
  proof -
    have "length (filter (\<lambda>r. r \<noteq> None) (map snd (map ?g xs))) =
          length (filter (lookup_succeeded search raises restrictions) xs)" for xs
      by (induction xs) (auto simp: lookup_succeeded_def)
    then show ?thesis .
  qed
  also have "\<dots> = size (filter_mset (lookup_succeeded search raises restrictions) (mset ?done))"
    by (metis mset_filter size_mset)
  also have "\<dots> = size (filter_mset (lookup_succeeded search raises restrictions) (mset ?futs))"
    by (simp only: perm)
  also have "\<dots> = length (filter (lookup_succeeded search raises restrictions) ?futs)"
    by (metis mset_filter size_mset)
  finally have D: "recipes_found ?res =
      length (filter (lookup_succeeded search raises restrictions) ?futs)" .
  from A found C D show ?thesis by blast
qed

text \<open>
  Three meals, the search raises for the second one, the futures complete in reverse
  order: two recipes are found, the second meal has \<open>None\<close>, the third has its recipe.
\<close>

theorem find_recipes_distinct_names_witness:
  "mset (reverse_order (zip [0..<length three_meals] three_meals)) =
     mset (zip [0..<length three_meals] three_meals)
   \<and> distinct (map name three_meals)
   \<and> total_meals (find_recipes_for_meals search_fails_for_quinoa never_raises reverse_order
                     three_meals None) = 3
   \<and> recipes_found (find_recipes_for_meals search_fails_for_quinoa never_raises reverse_order
                       three_meals None) = 2
   \<and> map_of (meal_recipes (find_recipes_for_meals search_fails_for_quinoa never_raises
                              reverse_order three_meals None)) ''Quinoa bowl'' = Some None
   \<and> map_of (meal_recipes (find_recipes_for_meals search_fails_for_quinoa never_raises
                              reverse_order three_meals None)) ''Tofu curry'' =
       Some (Some ''Delicious Tofu curry'')"
proof -
  have perm: "mset (reverse_order (zip [0..<length three_meals] three_meals)) =
     mset (zip [0..<length three_meals] three_meals)"
    by (simp add: reverse_order_def)
  have dist: "distinct (map name three_meals)"
    by (simp add: three_meals_def mk_meal_def)
  have len: "length three_meals = 3"
    by (simp add: three_meals_def)
  have futs: "zip [0..<length three_meals] three_meals =
      [(0, mk_meal 1 ''breakfast'' ''Avocado toast''), (1, mk_meal 1 ''lunch'' ''Quinoa bowl''),
       (2, mk_meal 1 ''dinner'' ''Tofu curry'')]"
    by (simp add: three_meals_def upt_rec)
  have ok: "length (filter (lookup_succeeded search_fails_for_quinoa never_raises None)
                      (zip [0..<length three_meals] three_meals)) = 2"
    by (simp add: futs lookup_succeeded_def future_entry_def never_raises_def process_meal_def
                  search_fails_for_quinoa_def search_titles_def mk_meal_def Let_def)
  have nth: "three_meals ! 1 = mk_meal 1 ''lunch'' ''Quinoa bowl''"
            "three_meals ! 2 = mk_meal 1 ''dinner'' ''Tofu curry''"
    by (simp_all add: three_meals_def)
  have q: "snd (process_meal search_fails_for_quinoa None (mk_meal 1 ''lunch'' ''Quinoa bowl'')) = None"
    by (simp add: process_meal_def search_fails_for_quinoa_def mk_meal_def Let_def)
  have t: "snd (process_meal search_fails_for_quinoa None (mk_meal 1 ''dinner'' ''Tofu curry'')) =
             Some ''Delicious Tofu curry''"
    by (simp add: process_meal_def search_fails_for_quinoa_def search_titles_def mk_meal_def Let_def)
  have nm: "name (mk_meal 1 ''lunch'' ''Quinoa bowl'') = ''Quinoa bowl''"
           "name (mk_meal 1 ''dinner'' ''Tofu curry'') = ''Tofu curry''"
    by (simp_all add: mk_meal_def)
  note inst = find_recipes_distinct_names [where completion = reverse_order
               and ms = three_meals and search = search_fails_for_quinoa
               and raises = never_raises and restrictions = None, OF perm dist]
  from inst have A: "total_meals (find_recipes_for_meals search_fails_for_quinoa never_raises
                     reverse_order three_meals None) = 3"
    by (simp add: len)
  from inst have B: "recipes_found (find_recipes_for_meals search_fails_for_quinoa never_raises
                       reverse_order three_meals None) = 2"
    by (simp only: ok)
  from inst have all: "\<forall>i < length three_meals.
      map_of (meal_recipes (find_recipes_for_meals search_fails_for_quinoa never_raises
                              reverse_order three_meals None)) (name (three_meals ! i)) =
        Some (if never_raises i then None
              else snd (process_meal search_fails_for_quinoa None (three_meals ! i)))"
    by blast
  have i1: "(1::nat) < length three_meals" and i2: "(2::nat) < length three_meals"
    by (simp_all add: len)
  from all i1 have "map_of (meal_recipes (find_recipes_for_meals search_fails_for_quinoa
                      never_raises reverse_order three_meals None)) (name (three_meals ! 1)) =
        Some (if never_raises 1 then None
              else snd (process_meal search_fails_for_quinoa None (three_meals ! 1)))"
    by blast
  then have C: "map_of (meal_recipes (find_recipes_for_meals search_fails_for_quinoa
                      never_raises reverse_order three_meals None)) ''Quinoa bowl'' = Some None"
    by (simp only: nth q nm never_raises_def if_False)
  from all i2 have "map_of (meal_recipes (find_recipes_for_meals search_fails_for_quinoa
                      never_raises reverse_order three_meals None)) (name (three_meals ! 2)) =
        Some (if never_raises 2 then None
              else snd (process_meal search_fails_for_quinoa None (three_meals ! 2)))"
    by blast
  then have D: "map_of (meal_recipes (find_recipes_for_meals search_fails_for_quinoa
                      never_raises reverse_order three_meals None)) ''Tofu curry'' =
                      Some (Some ''Delicious Tofu curry'')"
    by (simp only: nth t nm never_raises_def if_False)
  from perm dist A B C D show ?thesis by blast
qed

text \<open>
  Claim C5 as stated fails when two meals have the same name, as the breakfasts of two
  days may: both lookups succeed, and \<open>recipes_found\<close> is 1 for 2 meals.
\<close>

theorem recipes_found_counts_names_counterexample:
  "recipes_found (find_recipes_for_meals search_titles never_raises submission_order
                    same_breakfast_twice None) = 1
   \<and> length (filter (lookup_succeeded search_titles never_raises None)
               (zip [0..<length same_breakfast_twice] same_breakfast_twice)) = 2
   \<and> total_meals (find_recipes_for_meals search_titles never_raises submission_order
                    same_breakfast_twice None) = 2"
  by (simp add: find_recipes_for_meals_def collect_result_def process_meal_def
                search_titles_def never_raises_def submission_order_def
                same_breakfast_twice_def mk_meal_def lookup_succeeded_def future_entry_def
                upt_rec Let_def)


section \<open>Properties of the coordinator\<close>

lemma delete_absent: "map_of al k = None \<Longrightarrow> AList.delete k al = al"
  by (induction al) (auto split: if_splits)

lemma get_session_not_found:
  assumes "map_of (sessions svc) sid = None
           \<or> (\<exists>s. map_of (sessions svc) sid = Some s
                  \<and> now1 - last_accessed s > session_timeout svc)"
  shows "get_session svc sid now1 now2 =
           (None, svc\<lparr> sessions := AList.delete sid (sessions svc) \<rparr>)"
  using assms
proof (elim disjE exE conjE)
  assume "map_of (sessions svc) sid = None"
  then show ?thesis
    by (simp add: get_session_def delete_absent)
next
  fix s
  assume s: "map_of (sessions svc) sid = Some s"
    and x: "now1 - last_accessed s > session_timeout svc"
  from s have "sid \<in> fst ` set (sessions svc)"
    by (metis domI dom_map_of_conv_image_fst)
  with s x show ?thesis
    by (simp add: get_session_def delete_session_def)
qed

text \<open>
  Claim C9, as amended. When the session id is absent, or its session has expired at the
  first clock reading, \<open>plan_meals\<close> raises \<open>ValueError("Session ... not found")\<close>. The
  preference and history stores are unchanged; the coordinator logs the error and no
  "Step" message, and the outcome is the same whatever the planner, the search tool, the
  list builder and the estimator would have done (it depends on the first clock reading
  only): no step of the workflow runs. The session store keeps its timeout and loses at
  most the entry of this id: it is unchanged for an absent id, and for an expired id the
  expired session is evicted.
\<close>

theorem plan_meals_session_not_found:
  assumes "map_of (sessions (session_service orch)) sid = None
           \<or> (\<exists>s. map_of (sessions (session_service orch)) sid = Some s
                  \<and> env_clock e 0 - last_accessed s > session_timeout (session_service orch))"
  shows "fst (orchestrator_plan_meals e orch sid n restrictions prefs inc_n inc_s) =
           Inl (ValueError (''Session '' @ sid @ '' not found''))
       \<and> memory_bank (snd (orchestrator_plan_meals e orch sid n restrictions prefs inc_n inc_s)) =
           memory_bank orch
       \<and> log (snd (orchestrator_plan_meals e orch sid n restrictions prefs inc_n inc_s)) =
           log orch @ [''Error in meal planning workflow: Session '' @ sid @ '' not found'']
       \<and> sessions (session_service
            (snd (orchestrator_plan_meals e orch sid n restrictions prefs inc_n inc_s))) =
           AList.delete sid (sessions (session_service orch))
       \<and> session_timeout (session_service
            (snd (orchestrator_plan_meals e orch sid n restrictions prefs inc_n inc_s))) =
           session_timeout (session_service orch)
       \<and> (map_of (sessions (session_service orch)) sid = None \<longrightarrow>
            session_service
              (snd (orchestrator_plan_meals e orch sid n restrictions prefs inc_n inc_s)) =
            session_service orch)
       \<and> (env_clock e' 0 = env_clock e 0 \<longrightarrow>
            orchestrator_plan_meals e' orch sid n restrictions prefs inc_n inc_s =
            orchestrator_plan_meals e orch sid n restrictions prefs inc_n inc_s)"
proof -
  let ?svc = "session_service orch"
  have g: "get_session ?svc sid (env_clock e 0) now2 =
             (None, ?svc\<lparr> sessions := AList.delete sid (sessions ?svc) \<rparr>)" for now2
    by (rule get_session_not_found [OF assms])
  have run: "orchestrator_plan_meals e orch sid n restrictions prefs inc_n inc_s =
      (Inl (ValueError (''Session '' @ sid @ '' not found'')),
       orch\<lparr> session_service := ?svc\<lparr> sessions := AList.delete sid (sessions ?svc) \<rparr>,
             log := log orch @
               [''Error in meal planning workflow: Session '' @ sid @ '' not found''] \<rparr>)"
    by (simp add: orchestrator_plan_meals_def g)
  have same: "orchestrator_plan_meals e' orch sid n restrictions prefs inc_n inc_s =
      orchestrator_plan_meals e orch sid n restrictions prefs inc_n inc_s"
    if "env_clock e' 0 = env_clock e 0"
    unfolding run by (simp add: orchestrator_plan_meals_def that g)
  have absent: "session_service
              (snd (orchestrator_plan_meals e orch sid n restrictions prefs inc_n inc_s)) =
            session_service orch"
    if "map_of (sessions (session_service orch)) sid = None"
    unfolding run by (simp add: delete_absent [OF that])
  from run same absent show ?thesis by simp
qed

text \<open>An absent id, and the id of a session that has been idle for 9000 with a timeout of 3600.\<close>

theorem plan_meals_session_not_found_witness:
  "map_of (sessions (session_service demo_orchestrator)) ''nope'' = None
   \<and> orchestrator_plan_meals demo_env demo_orchestrator ''nope'' 2 None None True True =
       (Inl (ValueError ''Session nope not found''),
        demo_orchestrator\<lparr> log := [''Error in meal planning workflow: Session nope not found''] \<rparr>)
   \<and> env_clock late_env 0 - 0 > session_timeout (session_service demo_orchestrator)
   \<and> fst (orchestrator_plan_meals late_env demo_orchestrator ''s1'' 2 None None True True) =
       Inl (ValueError ''Session s1 not found'')
   \<and> memory_bank (snd (orchestrator_plan_meals late_env demo_orchestrator ''s1'' 2 None None
                           True True)) = memory_bank demo_orchestrator"
proof -
  have a: "map_of (sessions (session_service demo_orchestrator)) ''nope'' = None"
    by (simp add: demo_orchestrator_def)
  have s: "map_of (sessions (session_service demo_orchestrator)) ''s1'' =
     Some \<lparr> session_id = ''s1'', user_id = ''u1'', created_at = 0, last_accessed = 0,
            session_context = [], session_preferences = [] \<rparr>"
    by (simp add: demo_orchestrator_def)
  have x: "env_clock late_env 0 - 0 > session_timeout (session_service demo_orchestrator)"
    by (simp add: late_env_def clock_late_def demo_orchestrator_def)
  have h1: "map_of (sessions (session_service demo_orchestrator)) ''nope'' = None
            \<or> (\<exists>s. map_of (sessions (session_service demo_orchestrator)) ''nope'' = Some s
                   \<and> env_clock demo_env 0 - last_accessed s
                       > session_timeout (session_service demo_orchestrator))"
    using a by blast
  have h2: "map_of (sessions (session_service demo_orchestrator)) ''s1'' = None
            \<or> (\<exists>s. map_of (sessions (session_service demo_orchestrator)) ''s1'' = Some s
                   \<and> env_clock late_env 0 - last_accessed s
                       > session_timeout (session_service demo_orchestrator))"
    using s x by simp
  have l: "log demo_orchestrator = []"
    by (simp add: demo_orchestrator_def)
  note i1 = plan_meals_session_not_found [OF h1, of 2 None None True True demo_env]
  note i2 = plan_meals_session_not_found [OF h2, of 2 None None True True late_env]
  have r1: "orchestrator_plan_meals demo_env demo_orchestrator ''nope'' 2 None None True True =
       (Inl (ValueError ''Session nope not found''),
        demo_orchestrator\<lparr> log := [''Error in meal planning workflow: Session nope not found''] \<rparr>)"
  proof (rule prod_eqI)
    show "fst (orchestrator_plan_meals demo_env demo_orchestrator ''nope'' 2 None None True True) =
          fst (Inl (ValueError ''Session nope not found'') ::
                 py_error + (string, nat, nat) workflow_result,
               demo_orchestrator\<lparr> log := [''Error in meal planning workflow: Session nope not found''] \<rparr>)"
      using i1 by simp
    show "snd (orchestrator_plan_meals demo_env demo_orchestrator ''nope'' 2 None None True True) =
          snd (Inl (ValueError ''Session nope not found'') ::
                 py_error + (string, nat, nat) workflow_result,
               demo_orchestrator\<lparr> log := [''Error in meal planning workflow: Session nope not found''] \<rparr>)"
      using i1 a l by (intro orchestrator.equality) simp_all
  qed
  from i2 have r2: "fst (orchestrator_plan_meals late_env demo_orchestrator ''s1'' 2 None None True True) =
       Inl (ValueError ''Session s1 not found'')"
    by simp
  from i2 have r3: "memory_bank (snd (orchestrator_plan_meals late_env demo_orchestrator ''s1'' 2
                      None None True True)) = memory_bank demo_orchestrator"
    by blast
  from a r1 x r2 r3 show ?thesis by blast
qed

text \<open>
  Claim C9 as stated fails for an expired session: the failing call evicts it, so the
  session store is not left unchanged.
\<close>

theorem plan_meals_expired_session_evicted_counterexample:
  "fst (orchestrator_plan_meals late_env demo_orchestrator ''s1'' 2 None None True True) =
     Inl (ValueError ''Session s1 not found'')
   \<and> sessions (session_service demo_orchestrator) \<noteq> []
   \<and> sessions (session_service
        (snd (orchestrator_plan_meals late_env demo_orchestrator ''s1'' 2 None None True True))) = []
   \<and> session_service
        (snd (orchestrator_plan_meals late_env demo_orchestrator ''s1'' 2 None None True True))
       \<noteq> session_service demo_orchestrator"
proof -
  have run: "orchestrator_plan_meals late_env demo_orchestrator ''s1'' 2 None None True True =
      (Inl (ValueError ''Session s1 not found''),
       demo_orchestrator\<lparr> session_service := \<lparr> sessions = [], session_timeout = 3600 \<rparr>,
             log := [''Error in meal planning workflow: Session s1 not found''] \<rparr>)"
    by (simp add: orchestrator_plan_meals_def get_session_def delete_session_def
                  late_env_def clock_late_def demo_env_def demo_orchestrator_def AList.delete_eq)
  have ne: "sessions (session_service demo_orchestrator) \<noteq> []"
    by (simp add: demo_orchestrator_def)
  from ne have "session_service demo_orchestrator \<noteq> \<lparr> sessions = [], session_timeout = 3600 \<rparr>"
    by auto
  with ne show ?thesis
    unfolding run by simp
qed

lemma prefs_of_add_meal_history:
  "prefs_of (add_meal_history bank uid plan fb now) u = prefs_of bank u"
  by (simp add: add_meal_history_def prefs_of_def Let_def)

lemma plan_meals_live_bank:
  assumes "map_of (sessions (session_service orch)) sid = Some s"
    and "\<not> env_clock e 0 - last_accessed s > session_timeout (session_service orch)"
  shows "memory_bank (snd (orchestrator_plan_meals e orch sid n restrictions prefs inc_n inc_s)) =
     (let plan = meal_planner_plan_meals (env_llm e) (env_json_loads e) (env_rnd e) n
                   restrictions prefs;
          bank1 = add_meal_history (memory_bank orch) (user_id s) plan None (env_clock e 5);
          bank2 = (if truthy restrictions
                   then save_restrictions bank1 (user_id s) (or_empty restrictions)
                          (env_clock e) 6
                   else bank1)
      in if truthy prefs
         then add_preference bank2 (user_id s) ''cuisine_preferences''
                (PList (map PStr (or_empty prefs)))
                (env_clock e (6 + length (or_empty restrictions)))
         else bank2)"
  by (simp add: orchestrator_plan_meals_def get_session_live [OF assms] Let_def)

lemma create_session_state:
  assumes "orchestrator_create_session orch new_id now uid ip = (sid, orch1)"
  shows "sid = new_id"
    and "memory_bank orch1 = memory_bank orch"
    and "session_timeout (session_service orch1) = session_timeout (session_service orch)"
    and "\<exists>s. map_of (sessions (session_service orch1)) sid = Some s
             \<and> user_id s = uid \<and> last_accessed s = now"
  using assms
  by (auto simp: orchestrator_create_session_def create_session_def Let_def update_conv')

lemma scenario_stored_restriction:
  assumes created: "orchestrator_create_session orch new_id now uid ip = (sid, orch1)"
    and noprefs: "prefs_of (memory_bank orch) uid = []"
    and live: "\<not> env_clock e 0 - now > session_timeout (session_service orch)"
  shows "(\<exists>res. fst (orchestrator_plan_meals e orch1 sid n (Some [restriction]) None inc_n inc_s)
                  = Inr res)
       \<and> prefs_of (memory_bank (snd (orchestrator_plan_meals e orch1 sid n (Some [restriction])
                                        None inc_n inc_s))) uid =
           [\<lparr> pref_user_id = uid, preference_type = ''dietary_restriction'',
              pref_value = PStr restriction, pref_created_at = env_clock e 6,
              last_updated = env_clock e 6 \<rparr>]"
proof -
  from create_session_state [OF created] obtain s where
    bank: "memory_bank orch1 = memory_bank orch"
    and tmo: "session_timeout (session_service orch1) = session_timeout (session_service orch)"
    and s: "map_of (sessions (session_service orch1)) sid = Some s"
    and u: "user_id s = uid" and la: "last_accessed s = now"
    by blast
  from live tmo la have live1:
    "\<not> env_clock e 0 - last_accessed s > session_timeout (session_service orch1)"
    by simp
  from plan_meals_live_result [OF s live1, of n "Some [restriction]" None inc_n inc_s]
  have A: "\<exists>res. fst (orchestrator_plan_meals e orch1 sid n (Some [restriction]) None inc_n inc_s)
                  = Inr res"
    by blast
  have B: "prefs_of (memory_bank (snd (orchestrator_plan_meals e orch1 sid n (Some [restriction])
                                        None inc_n inc_s))) uid =
           [\<lparr> pref_user_id = uid, preference_type = ''dietary_restriction'',
              pref_value = PStr restriction, pref_created_at = env_clock e 6,
              last_updated = env_clock e 6 \<rparr>]"
    by (simp add: plan_meals_live_bank [OF s live1] Let_def truthy_def or_empty_def u bank
                  prefs_of_add_preference prefs_of_add_meal_history noprefs)
  from A B show ?thesis by blast
qed

text \<open>
  Claim C7, as amended. A session is created for user \<open>u1\<close>, who has no stored
  preferences, and the workflow runs for two days with the restrictions
  \<open>["vegetarian"]\<close> before the session expires. Then the workflow returns a result, and
  the preference store holds for \<open>u1\<close> exactly one entry: \<open>dietary_restriction\<close> with the
  value \<open>"vegetarian"\<close>, the restriction string itself, which is what \<open>get_preferences\<close>
  and \<open>get_preference\<close> return.
\<close>

theorem workflow_stores_restriction_string:
  assumes "orchestrator_create_session orch new_id now ''u1'' ip = (sid, orch1)"
    and "prefs_of (memory_bank orch) ''u1'' = []"
    and "\<not> env_clock e 0 - now > session_timeout (session_service orch)"
  shows "(\<exists>res. fst (orchestrator_plan_meals e orch1 sid 2 (Some [''vegetarian'']) None
                       inc_n inc_s) = Inr res)
       \<and> prefs_of (memory_bank (snd (orchestrator_plan_meals e orch1 sid 2
                      (Some [''vegetarian'']) None inc_n inc_s))) ''u1'' =
           [\<lparr> pref_user_id = ''u1'', preference_type = ''dietary_restriction'',
              pref_value = PStr ''vegetarian'', pref_created_at = env_clock e 6,
              last_updated = env_clock e 6 \<rparr>]
       \<and> get_preferences (memory_bank (snd (orchestrator_plan_meals e orch1 sid 2
                      (Some [''vegetarian'']) None inc_n inc_s))) ''u1'' =
           [(''dietary_restriction'', PStr ''vegetarian'')]
       \<and> get_preference (memory_bank (snd (orchestrator_plan_meals e orch1 sid 2
                      (Some [''vegetarian'']) None inc_n inc_s))) ''u1'' ''dietary_restriction'' =
           PStr ''vegetarian''"
proof -
  note sc = scenario_stored_restriction [OF assms, of 2 "''vegetarian''" inc_n inc_s]
  from sc have P: "prefs_of (memory_bank (snd (orchestrator_plan_meals e orch1 sid 2
                      (Some [''vegetarian'']) None inc_n inc_s))) ''u1'' =
           [\<lparr> pref_user_id = ''u1'', preference_type = ''dietary_restriction'',
              pref_value = PStr ''vegetarian'', pref_created_at = env_clock e 6,
              last_updated = env_clock e 6 \<rparr>]"
    by blast
  have G: "get_preferences (memory_bank (snd (orchestrator_plan_meals e orch1 sid 2
                      (Some [''vegetarian'']) None inc_n inc_s))) ''u1'' =
           [(''dietary_restriction'', PStr ''vegetarian'')]"
    by (simp add: get_preferences_def P)
  have H: "get_preference (memory_bank (snd (orchestrator_plan_meals e orch1 sid 2
                      (Some [''vegetarian'']) None inc_n inc_s))) ''u1'' ''dietary_restriction'' =
           PStr ''vegetarian''"
    by (simp add: get_preference_def P)
  from sc P G H show ?thesis by blast
qed

lemma fresh_created:
  "orchestrator_create_session fresh_orchestrator ''s1'' 0 ''u1'' None =
     (''s1'', snd (orchestrator_create_session fresh_orchestrator ''s1'' 0 ''u1'' None))"
  by (simp add: orchestrator_create_session_def create_session_def Let_def)

lemma fresh_no_prefs: "prefs_of (memory_bank fresh_orchestrator) ''u1'' = []"
  by (simp add: fresh_orchestrator_def empty_bank_def prefs_of_def)

lemma fresh_live:
  "\<not> env_clock demo_env 0 - 0 > session_timeout (session_service fresh_orchestrator)"
  by (simp add: demo_env_def clock_zero_def fresh_orchestrator_def)

text \<open>The scenario on a fresh coordinator, with no model configured and a clock that stands still.\<close>

theorem workflow_stores_restriction_string_witness:
  "prefs_of (memory_bank fresh_orchestrator) ''u1'' = []
   \<and> get_preferences
        (memory_bank (snd (orchestrator_plan_meals demo_env
           (snd (orchestrator_create_session fresh_orchestrator ''s1'' 0 ''u1'' None))
           ''s1'' 2 (Some [''vegetarian'']) None True True))) ''u1'' =
       [(''dietary_restriction'', PStr ''vegetarian'')]"
  using fresh_no_prefs
    workflow_stores_restriction_string [OF fresh_created fresh_no_prefs fresh_live, of True True]
  by blast

text \<open>
  Claim C7 as stated fails: the stored value is the string \<open>"vegetarian"\<close>, not the list
  \<open>["vegetarian"]\<close>.
\<close>

theorem workflow_stores_restriction_string_counterexample:
  "get_preference
     (memory_bank (snd (orchestrator_plan_meals demo_env
        (snd (orchestrator_create_session fresh_orchestrator ''s1'' 0 ''u1'' None))
        ''s1'' 2 (Some [''vegetarian'']) None True True))) ''u1'' ''dietary_restriction''
     = PStr ''vegetarian''
   \<and> get_preference
     (memory_bank (snd (orchestrator_plan_meals demo_env
        (snd (orchestrator_create_session fresh_orchestrator ''s1'' 0 ''u1'' None))
        ''s1'' 2 (Some [''vegetarian'']) None True True))) ''u1'' ''dietary_restriction''
     \<noteq> PList [PStr ''vegetarian'']"
proof -
  from scenario_stored_restriction [OF fresh_created fresh_no_prefs fresh_live,
         of 2 "''vegetarian''" True True]
  have "get_preference
     (memory_bank (snd (orchestrator_plan_meals demo_env
        (snd (orchestrator_create_session fresh_orchestrator ''s1'' 0 ''u1'' None))
        ''s1'' 2 (Some [''vegetarian'']) None True True))) ''u1'' ''dietary_restriction''
     = PStr ''vegetarian''"
    by (simp add: get_preference_def)
  then show ?thesis by simp
qed

end
